theory Spec2Isabelle
  imports Complex_Main "HOL-Library.Word"
begin

section \<open>Machine integers, faults and runs\<close>

text \<open>
  The program is \<^verbatim>\<open>netOnZeroDXC_diagram.cpp\<close>: \<^verbatim>\<open>main\<close>, its option parser and its
  sequence check. A C++ \<^verbatim>\<open>int\<close> is modelled as an \<open>int\<close> that has to stay within 32 bits
  (signed overflow is undefined behaviour and is a fault of the model), a
  \<^verbatim>\<open>size_t\<close> as a \<open>nat\<close> below \<open>2 ^ 64\<close> whose arithmetic wraps around, and the
  \<^verbatim>\<open>unsigned int\<close> seed as a \<open>32 word\<close>. A \<^verbatim>\<open>double\<close> is a \<open>real\<close>: the functions
  modelled here only store and pass doubles on.
\<close>

definition INT_MAX :: int where
  "INT_MAX = 2147483647"

definition INT_MIN :: int where
  "INT_MIN = - 2147483648"

definition int_ok :: "int \<Rightarrow> bool" where
  "int_ok x \<longleftrightarrow> INT_MIN \<le> x \<and> x \<le> INT_MAX"

definition to_size_t :: "int \<Rightarrow> nat" where
  \<comment> \<open>the conversion of an \<^verbatim>\<open>int\<close> operand to \<^verbatim>\<open>size_t\<close>\<close>
  "to_size_t x = nat (x mod 2 ^ 64)"

definition size_sub :: "nat \<Rightarrow> nat \<Rightarrow> nat" where
  \<comment> \<open>\<^verbatim>\<open>a - b\<close> on \<^verbatim>\<open>size_t\<close>\<close>
  "size_sub a b = nat ((int a - int b) mod 2 ^ 64)"

definition c_div :: "int \<Rightarrow> int \<Rightarrow> int" where
  \<comment> \<open>\<^verbatim>\<open>a / b\<close> on \<^verbatim>\<open>int\<close>: the quotient is truncated towards zero\<close>
  "c_div a b = sgn a * sgn b * (\<bar>a\<bar> div \<bar>b\<bar>)"

definition c_rem :: "int \<Rightarrow> int \<Rightarrow> int" where
  \<comment> \<open>\<^verbatim>\<open>a % b\<close> on \<^verbatim>\<open>int\<close>\<close>
  "c_rem a b = a - b * c_div a b"

datatype fault = NullPointer | OutOfRange | SignedOverflow | DivisionByZero

datatype stop = Exited int | Faulted fault | Diverged

datatype message =
    HelpText
  | ErrColumnNumbers
  | ErrWindowWidths
  | ErrBaseWidth
  | ErrCannotRead string
  | ErrInconsistentSizes
  | ErrColumnsTooLarge
  | ErrNegativeDiagramSize
  | WarnOddBaseWidth int
  | ErrWriting string

datatype event =
    Stderr message
  | ComputeCDiagram "real list list" int int int int bool int
  | InitSurrogate int
  | GenSurrogate int "32 word"
  | UpdatePDiagram int int
  | SaveFile "real list list" string char
  | StdoutRow "real list" char

type_synonym 'a run = "event list \<times> (stop + 'a)"

definition return_run :: "'a \<Rightarrow> 'a run" where
  "return_run x = ([], Inr x)"

definition emit :: "event list \<Rightarrow> unit run" where
  "emit es = (es, Inr ())"

definition stop_run :: "stop \<Rightarrow> 'a run" where
  "stop_run s = ([], Inl s)"

definition bind_run :: "'a run \<Rightarrow> ('a \<Rightarrow> 'b run) \<Rightarrow> 'b run" where
  "bind_run m f =
     (case m of
        (es, Inl s) \<Rightarrow> (es, Inl s)
      | (es, Inr x) \<Rightarrow> (case f x of (es', r) \<Rightarrow> (es @ es', r)))"

section \<open>The sequence check\<close>

text \<open>
  The quantity \<^verbatim>\<open>floor((sequences[na].size() - L * W) / L) - ((tau > 0) ? tau : 0)\<close>
  of \<^verbatim>\<open>netOnZeroDXC_xc_check_sequences\<close>. The subtraction and the division are
  \<^verbatim>\<open>size_t\<close> operations; \<^verbatim>\<open>floor\<close> converts the quotient to \<^verbatim>\<open>double\<close>. A quotient
  below \<open>2 ^ 53\<close> converts exactly; a larger one converts to a double of at least
  \<open>2 ^ 53\<close>, from which subtracting a \<^verbatim>\<open>tau\<close> below \<open>2 ^ 31\<close> leaves more than 1, as
  the exact difference does: the comparison with 1 is the same on the exact integers.
\<close>

definition expected_diagram_size :: "nat \<Rightarrow> int \<Rightarrow> int \<Rightarrow> int \<Rightarrow> int" where
  "expected_diagram_size n L W tau =
     int (size_sub n (to_size_t (L * W)) div to_size_t L) - (if tau > 0 then tau else 0)"

definition netOnZeroDXC_xc_check_sequences ::
  "real list list \<Rightarrow> int \<Rightarrow> int \<Rightarrow> int \<Rightarrow> int \<Rightarrow> int \<Rightarrow> (int \<times> int) run" where
  \<comment> \<open>the result is the returned code and the value left in the reference \<^verbatim>\<open>L\<close>\<close>
  "netOnZeroDXC_xc_check_sequences sequences na nb W L tau =
     (if to_size_t na > length sequences \<or> to_size_t nb > length sequences
      then ([Stderr ErrColumnsTooLarge], Inr (1, L))
      else if \<not> to_size_t na < length sequences then stop_run (Faulted OutOfRange)
      else if \<not> int_ok (L * W) then stop_run (Faulted SignedOverflow)
      else if to_size_t L = 0 then stop_run (Faulted DivisionByZero)
      else if expected_diagram_size (length (sequences ! to_size_t na)) L W tau < 1
      then ([Stderr ErrNegativeDiagramSize], Inr (1, L))
      else if c_rem L 2 \<noteq> 0 then ([Stderr (WarnOddBaseWidth (L - 1))], Inr (0, L - 1))
      else ([], Inr (0, L)))"

section \<open>Option parsing\<close>

text \<open>
  \<^verbatim>\<open>atoi\<close> is the C library's: leading white space, an optional sign, then decimal
  digits up to the first other character; no digits give 0. A value that does not fit
  an \<^verbatim>\<open>int\<close> is undefined behaviour.
\<close>

definition isspace :: "char \<Rightarrow> bool" where
  "isspace c \<longleftrightarrow> c \<in> set [CHR '' '', CHR 0x09, CHR 0x0A, CHR 0x0B, CHR 0x0C, CHR 0x0D]"

definition isdigit :: "char \<Rightarrow> bool" where
  "isdigit c \<longleftrightarrow> c \<in> set ''0123456789''"

fun atoi_digits :: "int \<Rightarrow> string \<Rightarrow> int" where
  "atoi_digits acc [] = acc"
| "atoi_digits acc (c # cs) =
     (if isdigit c then atoi_digits (10 * acc + (int (of_char c) - 48)) cs else acc)"

definition atoi :: "string \<Rightarrow> int run" where
  "atoi s =
     (let s1 = dropWhile isspace s;
          v = (case s1 of
                 [] \<Rightarrow> 0
               | c # cs \<Rightarrow>
                   if c = CHR ''-'' then - atoi_digits 0 cs
                   else if c = CHR ''+'' then atoi_digits 0 cs
                   else atoi_digits 0 s1)
      in if int_ok v then return_run v else stop_run (Faulted SignedOverflow))"

record options =
  read_from_file :: bool
  write_to_file :: bool
  print_corr_diagram :: bool
  compute_pvalue_diagram :: bool
  enable_parallel_computing :: bool
  index_a :: int
  index_b :: int
  apply_tau :: int
  nr_window_widths :: int
  window_basewidth :: int
  nr_surrogates :: int
  selected_input_filename :: string
  selected_output_filename :: string
  separator_char :: char

definition initial_options :: options where
  \<comment> \<open>the initial values of the locals of \<^verbatim>\<open>main\<close>, lines 58 to 68\<close>
  "initial_options =
     \<lparr>read_from_file = False, write_to_file = False, print_corr_diagram = False,
      compute_pvalue_diagram = False, enable_parallel_computing = False,
      index_a = - 1, index_b = - 1, apply_tau = - 1, nr_window_widths = - 1,
      window_basewidth = - 1, nr_surrogates = 100, selected_input_filename = [],
      selected_output_filename = [], separator_char = CHR ''t''\<rparr>"

text \<open>
  The \<^verbatim>\<open>while (n < argc)\<close> loop, on the arguments from \<^verbatim>\<open>argv[n]\<close> on. An option
  that takes a value reads \<^verbatim>\<open>argv[n + 1]\<close>; past the last argument that is the null
  pointer \<^verbatim>\<open>argv[argc]\<close>, and reading through it is a fault.
\<close>

fun parse_loop :: "string list \<Rightarrow> options \<Rightarrow> options run" where
  "parse_loop [] opts = return_run opts"
| "parse_loop (arg # rest) opts =
     (if arg = ''-n'' then
        (case rest of
           [] \<Rightarrow> stop_run (Faulted NullPointer)
         | a # rest1 \<Rightarrow>
             bind_run (atoi a) (\<lambda>ia.
               case rest1 of
                 [] \<Rightarrow> stop_run (Faulted NullPointer)
               | b # rest2 \<Rightarrow>
                   bind_run (atoi b) (\<lambda>ib.
                     parse_loop rest2 (opts\<lparr>index_a := ia, index_b := ib\<rparr>))))
      else if arg = ''-i'' then
        (case rest of
           [] \<Rightarrow> stop_run (Faulted NullPointer)
         | f # rest1 \<Rightarrow>
             parse_loop rest1 (opts\<lparr>read_from_file := True, selected_input_filename := f\<rparr>))
      else if arg = ''-o'' then
        (case rest of
           [] \<Rightarrow> stop_run (Faulted NullPointer)
         | f # rest1 \<Rightarrow>
             parse_loop rest1 (opts\<lparr>write_to_file := True, selected_output_filename := f\<rparr>))
      else if arg = ''-s'' then
        (case rest of
           [] \<Rightarrow> stop_run (Faulted NullPointer)
         | s # rest1 \<Rightarrow>
             parse_loop rest1
               (opts\<lparr>separator_char := (case s of [] \<Rightarrow> CHR 0x00 | c # _ \<Rightarrow> c)\<rparr>))
      else if arg = ''-parallel'' then
        parse_loop rest (opts\<lparr>enable_parallel_computing := True\<rparr>)
      else if arg = ''-C'' \<or> arg = ''-c'' then
        parse_loop rest (opts\<lparr>print_corr_diagram := True\<rparr>)
      else if arg = ''-p'' then
        parse_loop rest (opts\<lparr>compute_pvalue_diagram := True\<rparr>)
      else if arg = ''-W'' then
        (case rest of
           [] \<Rightarrow> stop_run (Faulted NullPointer)
         | a # rest1 \<Rightarrow>
             bind_run (atoi a) (\<lambda>w. parse_loop rest1 (opts\<lparr>nr_window_widths := w\<rparr>)))
      else if arg = ''-L'' then
        (case rest of
           [] \<Rightarrow> stop_run (Faulted NullPointer)
         | a # rest1 \<Rightarrow>
             bind_run (atoi a) (\<lambda>l. parse_loop rest1 (opts\<lparr>window_basewidth := l\<rparr>)))
      else if arg = ''-M'' then
        (case rest of
           [] \<Rightarrow> stop_run (Faulted NullPointer)
         | a # rest1 \<Rightarrow>
             bind_run (atoi a) (\<lambda>m. parse_loop rest1 (opts\<lparr>nr_surrogates := m\<rparr>)))
      else if arg = ''-tau'' then
        (case rest of
           [] \<Rightarrow> stop_run (Faulted NullPointer)
         | a # rest1 \<Rightarrow>
             bind_run (atoi a) (\<lambda>t. parse_loop rest1 (opts\<lparr>apply_tau := t\<rparr>)))
      else if arg = ''-h'' \<or> arg = ''--help'' then
        ([Stderr HelpText], Inl (Exited 0))
      else parse_loop rest opts)"

definition netOnZeroDXC_xc_parse_options :: "string list \<Rightarrow> options \<Rightarrow> (int \<times> options) run" where
  \<comment> \<open>the result is the returned code and the values left in the reference parameters\<close>
  "netOnZeroDXC_xc_parse_options argv opts0 =
     bind_run (parse_loop (drop 1 argv) opts0) (\<lambda>opts1.
       let opts2 =
             (if \<not> compute_pvalue_diagram opts1 \<and> \<not> print_corr_diagram opts1
              then opts1\<lparr>compute_pvalue_diagram := True\<rparr>
              else if compute_pvalue_diagram opts1 \<and> print_corr_diagram opts1
              then opts1\<lparr>print_corr_diagram := False\<rparr>
              else opts1)
       in if index_a opts2 \<le> 0 \<or> index_b opts2 \<le> 0
          then ([Stderr ErrColumnNumbers], Inr (1, opts2))
          else if nr_window_widths opts2 \<le> 0
          then ([Stderr ErrWindowWidths], Inr (1, opts2))
          else if window_basewidth opts2 \<le> 0
          then ([Stderr ErrBaseWidth], Inr (1, opts2))
          else return_run
                 (0, opts2\<lparr>separator_char :=
                       (if separator_char opts2 = CHR ''s'' then CHR '' ''
                        else if separator_char opts2 = CHR ''c'' then CHR '',''
                        else CHR 0x09)\<rparr>))"

section \<open>The functions declared in the headers\<close>

text \<open>
  \<^verbatim>\<open>main\<close> calls functions that \<^verbatim>\<open>netOnZeroDXC_algorithm.hpp\<close> and
  \<^verbatim>\<open>netOnZeroDXC_io.hpp\<close> declare and that this file does not define. The model takes
  them as parameters, each a function from its arguments to what it returns or leaves
  in its reference parameters, and each taken to return. \<^verbatim>\<open>clock\<close> is the value of
  \<^verbatim>\<open>(unsigned int) clock()\<close>. The constant \<^verbatim>\<open>TOLERANCE_SURROGATES\<close> of the header is
  left inside \<^verbatim>\<open>netOnZeroDXC_generate_surrogate_sequence\<close>.
\<close>

record env =
  netOnZeroDXC_load_single_file :: "string \<Rightarrow> char \<Rightarrow> int \<times> real list list"
  netOnZeroDXC_load_stdin :: "char \<Rightarrow> real list list"
  netOnZeroDXC_check_linear_sizes :: "real list list \<Rightarrow> int"
  netOnZeroDXC_compute_cdiagram ::
    "real list list \<Rightarrow> real list list \<Rightarrow> int \<Rightarrow> int \<Rightarrow> int \<Rightarrow> int \<Rightarrow> bool \<Rightarrow> int \<Rightarrow> real list list"
  netOnZeroDXC_initialize_surrogate_generation :: "real list list \<Rightarrow> int \<Rightarrow> real list \<times> real list"
  netOnZeroDXC_generate_surrogate_sequence ::
    "real list list \<Rightarrow> int \<Rightarrow> real list \<Rightarrow> real list \<Rightarrow> 32 word \<Rightarrow> real list"
  netOnZeroDXC_update_pdiagram ::
    "real list list \<Rightarrow> real list list \<Rightarrow> real list list \<Rightarrow> int \<Rightarrow> int \<Rightarrow> real list list"
  netOnZeroDXC_save_single_file :: "real list list \<Rightarrow> string \<Rightarrow> char \<Rightarrow> int"
  clock :: "32 word"

section \<open>main\<close>

text \<open>Lines 86 to 96: the table read from standard input, turned into columns.\<close>

definition transpose_table :: "real list list \<Rightarrow> real list list run" where
  "transpose_table temp_data_table =
     (case temp_data_table of
        [] \<Rightarrow> stop_run (Faulted OutOfRange)
      | first # _ \<Rightarrow>
          if \<exists>row \<in> set temp_data_table. length row < length first
          then stop_run (Faulted OutOfRange)
          else return_run
                 (map (\<lambda>i. map (\<lambda>row. row ! i) temp_data_table) [0..<length first]))"

text \<open>Lines 79 to 98: the value of \<^verbatim>\<open>error\<close> and the loaded sequences.\<close>

definition load_sequences :: "env \<Rightarrow> options \<Rightarrow> (int \<times> real list list) run" where
  "load_sequences env opts =
     (if read_from_file opts then
        (case netOnZeroDXC_load_single_file env (selected_input_filename opts) (separator_char opts) of
           (error, loaded_sequences) \<Rightarrow>
             if error = 2
             then ([Stderr (ErrCannotRead (selected_input_filename opts))], Inl (Exited 1))
             else return_run (error, loaded_sequences))
      else
        bind_run (transpose_table (netOnZeroDXC_load_stdin env (separator_char opts)))
          (\<lambda>loaded_sequences.
             return_run (netOnZeroDXC_check_linear_sizes env loaded_sequences, loaded_sequences)))"

text \<open>
  Lines 111 to 117: the loop that appends one 0 to \<^verbatim>\<open>dummy_vector\<close> per window centre.
  \<^verbatim>\<open>k\<close> is an \<^verbatim>\<open>int\<close>, compared with a \<^verbatim>\<open>size_t\<close> bound. With \<^verbatim>\<open>window_basewidth\<close> 0
  the loop does not advance.
\<close>

partial_function (option) dummy_vector_loop ::
  "int \<Rightarrow> nat \<Rightarrow> int \<Rightarrow> real list \<Rightarrow> (stop + real list) option" where
  "dummy_vector_loop L bound k v =
     (if to_size_t k < bound
      then (if int_ok (k + L) then dummy_vector_loop L bound (k + L) (v @ [0])
            else Some (Inl (Faulted SignedOverflow)))
      else Some (Inr v))"

declare dummy_vector_loop.simps [code]

definition build_dummy_vector :: "real list list \<Rightarrow> options \<Rightarrow> real list run" where
  "build_dummy_vector loaded_sequences opts =
     (let W = nr_window_widths opts; L = window_basewidth opts; tau = apply_tau opts in
      if \<not> to_size_t (index_a opts) < length loaded_sequences then stop_run (Faulted OutOfRange)
      else if \<not> int_ok (W * L) then stop_run (Faulted SignedOverflow)
      else
        let n = length (loaded_sequences ! to_size_t (index_a opts));
            half = c_div (W * L) 2;
            bound = (if tau > 0 then size_sub (size_sub n (to_size_t half)) (to_size_t tau)
                     else size_sub n (to_size_t half))
        in case dummy_vector_loop L bound (half - 1) [] of
             None \<Rightarrow> stop_run Diverged
           | Some r \<Rightarrow> ([], r))"

text \<open>Lines 127 to 134 and 196 to 203: the table on standard output, row by row.\<close>

fun print_rows :: "real list list \<Rightarrow> nat \<Rightarrow> char \<Rightarrow> unit run" where
  "print_rows d 0 sep = return_run ()"
| "print_rows d (Suc n) sep =
     (case d of
        [] \<Rightarrow> stop_run (Faulted OutOfRange)
      | row # rest \<Rightarrow>
          if row = [] then stop_run (Faulted OutOfRange)
          else bind_run (emit [StdoutRow row sep]) (\<lambda>_. print_rows rest n sep))"

text \<open>
  Lines 124 to 135 and 193 to 204; the result is the value of \<^verbatim>\<open>error\<close> afterwards,
  which on standard output is still the 0 that \<^verbatim>\<open>netOnZeroDXC_xc_check_sequences\<close> returned.
\<close>

definition output_diagram :: "env \<Rightarrow> options \<Rightarrow> real list list \<Rightarrow> int run" where
  "output_diagram env opts d =
     (if write_to_file opts then
        ([SaveFile d (selected_output_filename opts) (separator_char opts)],
         Inr (netOnZeroDXC_save_single_file env d (selected_output_filename opts) (separator_char opts)))
      else bind_run (print_rows d (nat (nr_window_widths opts)) (separator_char opts))
             (\<lambda>_. return_run 0))"

text \<open>
  What a trial reads and does not change, and what the trials change: \<^verbatim>\<open>seed\<close> and
  \<^verbatim>\<open>p_value_diagram\<close> are declared before the loops (lines 119 and 149), so in the
  parallel loop, which has no data-sharing clause, they are shared between the workers.
\<close>

record locals =
  loaded_sequences :: "real list list"
  dummy_vector :: "real list"
  correlation_diagram_data :: "real list list"
  values_distribution_a :: "real list"
  fft_amplitudes_a :: "real list"
  values_distribution_b :: "real list"
  fft_amplitudes_b :: "real list"

record shared =
  seed :: "32 word"
  p_value_diagram :: "real list list"

text \<open>Lines 153 to 170: the body of the parallel loop, for trial \<^verbatim>\<open>i\<close>.\<close>

definition parallel_trial :: "env \<Rightarrow> options \<Rightarrow> locals \<Rightarrow> int \<Rightarrow> shared \<Rightarrow> shared run" where
  "parallel_trial env opts lv i st =
     (if \<not> int_ok (2 * i) then stop_run (Faulted SignedOverflow)
      else
        let W = nr_window_widths opts; L = window_basewidth opts; tau = apply_tau opts;
            st1 = st\<lparr>seed := seed st + word_of_int (2 * i)\<rparr>;
            temp_surrogate_sequence_a =
              netOnZeroDXC_generate_surrogate_sequence env (loaded_sequences lv) (index_a opts)
                (values_distribution_a lv) (fft_amplitudes_a lv) (seed st1);
            st2 = st1\<lparr>seed := seed st1 + 1\<rparr>;
            temp_surrogate_sequence_b =
              netOnZeroDXC_generate_surrogate_sequence env (loaded_sequences lv) (index_b opts)
                (values_distribution_b lv) (fft_amplitudes_b lv) (seed st2);
            surrogates_container = [temp_surrogate_sequence_a, temp_surrogate_sequence_b];
            correlation_diagram_surrogates =
              netOnZeroDXC_compute_cdiagram env (replicate (to_size_t W) (dummy_vector lv))
                surrogates_container 0 1 L W (tau > 0) tau;
            p = netOnZeroDXC_update_pdiagram env (p_value_diagram st2)
                  (correlation_diagram_data lv) correlation_diagram_surrogates W (nr_surrogates opts)
        in ([GenSurrogate (index_a opts) (seed st1), GenSurrogate (index_b opts) (seed st2),
             ComputeCDiagram surrogates_container 0 1 L W (tau > 0) tau,
             UpdatePDiagram W (nr_surrogates opts)],
            Inr (st2\<lparr>p_value_diagram := p\<rparr>)))"

text \<open>
  Lines 151 and 152: the \<^verbatim>\<open>omp parallel for schedule(dynamic)\<close> loop, as one worker runs
  it: trial after trial, in the order of \<^verbatim>\<open>i\<close>. This is the loop when OpenMP has a single
  thread, and when the program is built without OpenMP, where the pragma is ignored.
\<close>

function parallel_trials ::
  "env \<Rightarrow> options \<Rightarrow> locals \<Rightarrow> int \<Rightarrow> shared \<Rightarrow> shared run" where
  "parallel_trials env opts lv i st =
     (if i < nr_surrogates opts then
        bind_run (parallel_trial env opts lv i st)
          (\<lambda>st'. parallel_trials env opts lv (i + 1) st')
      else return_run st)"
  by pat_completeness auto
termination
  by (relation "measure (\<lambda>(env, opts, lv, i, st). nat (nr_surrogates opts - i))") auto

declare parallel_trials.simps [simp del]

text \<open>Lines 175 to 189: the body of the sequential loop.\<close>

definition sequential_trial :: "env \<Rightarrow> options \<Rightarrow> locals \<Rightarrow> shared \<Rightarrow> event list \<times> shared" where
  "sequential_trial env opts lv st =
     (let W = nr_window_widths opts; L = window_basewidth opts; tau = apply_tau opts;
          temp_surrogate_sequence_a =
            netOnZeroDXC_generate_surrogate_sequence env (loaded_sequences lv) (index_a opts)
              (values_distribution_a lv) (fft_amplitudes_a lv) (seed st);
          st1 = st\<lparr>seed := seed st + 1\<rparr>;
          temp_surrogate_sequence_b =
            netOnZeroDXC_generate_surrogate_sequence env (loaded_sequences lv) (index_b opts)
              (values_distribution_b lv) (fft_amplitudes_b lv) (seed st1);
          st2 = st1\<lparr>seed := seed st1 + 1\<rparr>;
          surrogates_container = [temp_surrogate_sequence_a, temp_surrogate_sequence_b];
          correlation_diagram_surrogates =
            netOnZeroDXC_compute_cdiagram env (replicate (to_size_t W) (dummy_vector lv))
              surrogates_container 0 1 L W (tau > 0) tau;
          p = netOnZeroDXC_update_pdiagram env (p_value_diagram st2)
                (correlation_diagram_data lv) correlation_diagram_surrogates W (nr_surrogates opts)
      in ([GenSurrogate (index_a opts) (seed st), GenSurrogate (index_b opts) (seed st1),
           ComputeCDiagram surrogates_container 0 1 L W (tau > 0) tau,
           UpdatePDiagram W (nr_surrogates opts)],
          st2\<lparr>p_value_diagram := p\<rparr>))"

function sequential_trials ::
  "env \<Rightarrow> options \<Rightarrow> locals \<Rightarrow> int \<Rightarrow> shared \<Rightarrow> event list \<times> shared" where
  "sequential_trials env opts lv i st =
     (if i < nr_surrogates opts then
        (case sequential_trial env opts lv st of
           (es, st') \<Rightarrow>
             (case sequential_trials env opts lv (i + 1) st' of
                (es', st'') \<Rightarrow> (es @ es', st'')))
      else ([], st))"
  by pat_completeness auto
termination
  by (relation "measure (\<lambda>(env, opts, lv, i, st). nat (nr_surrogates opts - i))") auto

declare sequential_trials.simps [simp del]

text \<open>Lines 143 to 210: the surrogate trials and the output of the p-value diagram.\<close>

definition surrogate_phase ::
  "env \<Rightarrow> options \<Rightarrow> real list list \<Rightarrow> real list \<Rightarrow> real list list \<Rightarrow> real list list \<Rightarrow> int run" where
  "surrogate_phase env opts loaded dummy corr p0 =
     (case netOnZeroDXC_initialize_surrogate_generation env loaded (index_a opts) of
        (vd_a, fft_a) \<Rightarrow>
     (case netOnZeroDXC_initialize_surrogate_generation env loaded (index_b opts) of
        (vd_b, fft_b) \<Rightarrow>
        let lv = \<lparr>loaded_sequences = loaded, dummy_vector = dummy,
                  correlation_diagram_data = corr,
                  values_distribution_a = vd_a, fft_amplitudes_a = fft_a,
                  values_distribution_b = vd_b, fft_amplitudes_b = fft_b\<rparr>;
            st0 = \<lparr>seed = clock env, p_value_diagram = p0\<rparr>
        in bind_run (emit [InitSurrogate (index_a opts), InitSurrogate (index_b opts)]) (\<lambda>_.
           bind_run
             (if enable_parallel_computing opts
              then parallel_trials env opts lv 0 st0
              else (case sequential_trials env opts lv 0 st0 of (es, st) \<Rightarrow> (es, Inr st)))
             (\<lambda>st.
           bind_run (output_diagram env opts (p_value_diagram st)) (\<lambda>error.
             if error \<noteq> 0
             then ([Stderr (ErrWriting (selected_output_filename opts))], Inl (Exited 1))
             else return_run 0)))))"

text \<open>Lines 109 to 210, entered with the checked options and the loaded sequences.\<close>

definition diagram_phase :: "env \<Rightarrow> options \<Rightarrow> real list list \<Rightarrow> int run" where
  "diagram_phase env opts loaded =
     bind_run (build_dummy_vector loaded opts) (\<lambda>dummy.
       let W = nr_window_widths opts; L = window_basewidth opts; tau = apply_tau opts;
           p0 = replicate (to_size_t W) dummy;
           corr = netOnZeroDXC_compute_cdiagram env (replicate (to_size_t W) dummy) loaded
                    (index_a opts) (index_b opts) L W (tau > 0) tau
       in bind_run
            (emit [ComputeCDiagram loaded (index_a opts) (index_b opts) L W (tau > 0) tau]) (\<lambda>_.
          if print_corr_diagram opts then
            bind_run (output_diagram env opts corr) (\<lambda>error.
              if error \<noteq> 0
              then ([Stderr (ErrWriting (selected_output_filename opts))], Inl (Exited 1))
              else stop_run (Exited 0))
          else surrogate_phase env opts loaded dummy corr p0))"

definition main :: "env \<Rightarrow> string list \<Rightarrow> int run" where
  "main env argv =
     bind_run (netOnZeroDXC_xc_parse_options argv initial_options) (\<lambda>(error, opts).
       if error \<noteq> 0 then stop_run (Exited 1)
       else
         bind_run (load_sequences env opts) (\<lambda>(error, loaded).
           if error = 3 \<or> error = 5
           then ([Stderr ErrInconsistentSizes], Inl (Exited 1))
           else
             bind_run
               (netOnZeroDXC_xc_check_sequences loaded (index_a opts) (index_b opts)
                  (nr_window_widths opts) (window_basewidth opts) (apply_tau opts))
               (\<lambda>(error, L).
                  if error \<noteq> 0 then stop_run (Exited 1)
                  else diagram_phase env
                         (opts\<lparr>window_basewidth := L, index_a := index_a opts - 1,
                               index_b := index_b opts - 1\<rparr>)
                         loaded)))"

definition exit_status :: "int run \<Rightarrow> int option" where
  \<comment> \<open>the status of the process: the argument of \<^verbatim>\<open>exit\<close> or the value \<^verbatim>\<open>main\<close> returns\<close>
  "exit_status r =
     (case snd r of Inl (Exited n) \<Rightarrow> Some n | Inl _ \<Rightarrow> None | Inr n \<Rightarrow> Some n)"

section \<open>Reading a run\<close>

fun is_stderr :: "event \<Rightarrow> bool" where
  "is_stderr (Stderr m) = True"
| "is_stderr e = False"

fun is_cdiagram :: "event \<Rightarrow> bool" where
  "is_cdiagram (ComputeCDiagram s a b L W d t) = True"
| "is_cdiagram e = False"

fun is_surrogate_event :: "event \<Rightarrow> bool" where
  "is_surrogate_event (InitSurrogate i) = True"
| "is_surrogate_event (GenSurrogate i s) = True"
| "is_surrogate_event (UpdatePDiagram W M) = True"
| "is_surrogate_event e = False"

fun is_output :: "event \<Rightarrow> bool" where
  "is_output (SaveFile d f c) = True"
| "is_output (StdoutRow r c) = True"
| "is_output e = False"

fun cdiagram_basewidth :: "event \<Rightarrow> int option" where
  "cdiagram_basewidth (ComputeCDiagram s a b L W d t) = Some L"
| "cdiagram_basewidth e = None"

definition basewidth_is :: "int \<Rightarrow> event \<Rightarrow> bool" where
  \<comment> \<open>an event that is no call of \<^verbatim>\<open>netOnZeroDXC_compute_cdiagram\<close>, or one with base width \<open>L\<close>\<close>
  "basewidth_is L e \<longleftrightarrow> cdiagram_basewidth e = None \<or> cdiagram_basewidth e = Some L"

definition basewidths :: "event list \<Rightarrow> int list" where
  \<comment> \<open>the base widths that the calls of \<^verbatim>\<open>netOnZeroDXC_compute_cdiagram\<close> received, in order\<close>
  "basewidths es = List.map_filter cdiagram_basewidth es"

fun is_trial_event :: "event \<Rightarrow> bool" where
  "is_trial_event (GenSurrogate i s) = True"
| "is_trial_event (UpdatePDiagram W M) = True"
| "is_trial_event e = False"

fun gen_seed :: "event \<Rightarrow> 32 word option" where
  "gen_seed (GenSurrogate i s) = Some s"
| "gen_seed e = None"

definition gen_seeds :: "event list \<Rightarrow> 32 word list" where
  \<comment> \<open>the seeds that the calls of \<^verbatim>\<open>netOnZeroDXC_generate_surrogate_sequence\<close> received, in order\<close>
  "gen_seeds es = List.map_filter gen_seed es"

text \<open>
  A run that has written nothing, or only the help text before \<^verbatim>\<open>exit(0)\<close>.
\<close>

definition silent :: "'a run \<Rightarrow> bool" where
  "silent r \<longleftrightarrow> fst r = [] \<or> (fst r = [Stderr HelpText] \<and> snd r = Inl (Exited 0))"

text \<open>
  An environment for concrete runs: the table on standard input, sizes that are found
  consistent, writes that succeed, and stand-ins for the algorithms that leave the
  diagrams as \<^verbatim>\<open>main\<close> allocated them.
\<close>

definition sample_env :: "real list list \<Rightarrow> env" where
  "sample_env table =
     \<lparr>netOnZeroDXC_load_single_file = (\<lambda>f c. (2, [])),
      netOnZeroDXC_load_stdin = (\<lambda>c. table),
      netOnZeroDXC_check_linear_sizes = (\<lambda>s. 0),
      netOnZeroDXC_compute_cdiagram = (\<lambda>d s a b L W dl tau. d),
      netOnZeroDXC_initialize_surrogate_generation = (\<lambda>s i. ([], [])),
      netOnZeroDXC_generate_surrogate_sequence = (\<lambda>s i vd fft sd. []),
      netOnZeroDXC_update_pdiagram = (\<lambda>p c s W M. p),
      netOnZeroDXC_save_single_file = (\<lambda>d f c. 0),
      clock = 1000\<rparr>"

section \<open>The significance aggregator\<close>

text \<open>
  Modelled from the spec: \<^verbatim>\<open>netOnZeroDXC_update_pdiagram\<close> is declared in
  \<^verbatim>\<open>netOnZeroDXC_algorithm.hpp\<close> and defined in no file at hand. The spec's
  SignificanceAggregator: for every cell shared by both diagrams, it increments a
  per-cell exceedance counter when the magnitude of the surrogate diagram's cell is at
  least that of the real diagram's cell; after all trials, each counter is divided by
  the total trial count to yield the final p-value diagram.
\<close>

fun accumulate_row :: "nat list \<Rightarrow> real list \<Rightarrow> real list \<Rightarrow> nat list" where
  "accumulate_row (c # cs) (r # rs) (s # ss) =
     (if \<bar>s\<bar> \<ge> \<bar>r\<bar> then Suc c else c) # accumulate_row cs rs ss"
| "accumulate_row cs rs ss = cs"

fun accumulate :: "nat list list \<Rightarrow> real list list \<Rightarrow> real list list \<Rightarrow> nat list list" where
  "accumulate (c # cs) (r # rs) (s # ss) = accumulate_row c r s # accumulate cs rs ss"
| "accumulate cs rs ss = cs"

definition finalize :: "nat \<Rightarrow> nat list list \<Rightarrow> real list list" where
  "finalize M counters = map (map (\<lambda>c. real c / real M)) counters"

definition pvalue_diagram ::
  "nat \<Rightarrow> nat \<Rightarrow> real list list \<Rightarrow> real list list list \<Rightarrow> real list list" where
  \<comment> \<open>\<open>W\<close> rows of \<open>K\<close> counters, all trials accumulated, then finalized\<close>
  "pvalue_diagram W K realDiagram surrogateDiagrams =
     finalize (length surrogateDiagrams)
       (foldl (\<lambda>counters s. accumulate counters realDiagram s)
          (replicate W (replicate K 0)) surrogateDiagrams)"

section \<open>Facts about the machine integers\<close>

lemma to_size_t_small: "0 \<le> x \<Longrightarrow> x < 2 ^ 64 \<Longrightarrow> to_size_t x = nat x"
  by (simp add: to_size_t_def)

lemma to_size_t_int_ok: "0 \<le> x \<Longrightarrow> int_ok x \<Longrightarrow> to_size_t x = nat x"
  by (rule to_size_t_small) (simp_all add: int_ok_def INT_MAX_def)

lemma c_rem_2: "c_rem L 2 \<noteq> 0 \<longleftrightarrow> odd L"
proof -
  have "c_div L 2 = (if 0 \<le> L then L div 2 else - ((- L) div 2))"
    by (simp add: c_div_def sgn_if)
  then show ?thesis
    by (auto simp: c_rem_def) presburger+
qed

section \<open>The sequence check reads the sequence after the selected one\<close>

text \<open>
  Claim C6. \<^verbatim>\<open>netOnZeroDXC_xc_check_sequences\<close> evaluates the windowing check on
  \<^verbatim>\<open>sequences[na]\<close>, where \<^verbatim>\<open>na\<close> is the 1-based column number. When \<^verbatim>\<open>na\<close> is the
  number of loaded sequences, the bounds check passes and the access is one past the
  last sequence. For every smaller positive \<^verbatim>\<open>na\<close> (with \<^verbatim>\<open>L * W\<close> within \<^verbatim>\<open>int\<close> and
  \<^verbatim>\<open>L\<close> not 0) the call is rejected exactly when the tested quantity is below 1 for the
  length of the sequence at index \<^verbatim>\<open>na\<close>, the one after the selected sequence at index
  \<^verbatim>\<open>na - 1\<close>, and otherwise accepted with \<^verbatim>\<open>L\<close> made even; the result depends on
  the loaded sequences only through their number and that one length.
\<close>

theorem check_sequences_indexes_na:
  assumes "0 < na" and "int_ok na" and "0 < nb" and "nb \<le> int (length sequences)"
  shows "(na = int (length sequences) \<longrightarrow>
           netOnZeroDXC_xc_check_sequences sequences na nb W L tau = stop_run (Faulted OutOfRange)) \<and>
         (na < int (length sequences) \<longrightarrow>
           (int_ok (L * W) \<and> to_size_t L \<noteq> 0 \<longrightarrow>
              netOnZeroDXC_xc_check_sequences sequences na nb W L tau =
                (if expected_diagram_size (length (sequences ! nat na)) L W tau < 1
                 then ([Stderr ErrNegativeDiagramSize], Inr (1, L))
                 else if odd L then ([Stderr (WarnOddBaseWidth (L - 1))], Inr (0, L - 1))
                 else ([], Inr (0, L)))) \<and>
           (\<forall>other. length other = length sequences \<and>
                    length (other ! nat na) = length (sequences ! nat na) \<longrightarrow>
              netOnZeroDXC_xc_check_sequences other na nb W L tau =
              netOnZeroDXC_xc_check_sequences sequences na nb W L tau))"
proof -
  have na: "to_size_t na = nat na"
    using assms(1,2) by (simp add: to_size_t_int_ok)
  have nb: "to_size_t nb \<le> length sequences"
  proof -
    have "nb mod 2 ^ 64 \<le> nb"
      using assms(3) by (simp add: zmod_le_nonneg_dividend)
    then show ?thesis
      using assms(4) by (simp add: to_size_t_def)
  qed
  have last: "netOnZeroDXC_xc_check_sequences sequences na nb W L tau =
      stop_run (Faulted OutOfRange)" if "na = int (length sequences)"
    using that na nb by (simp add: netOnZeroDXC_xc_check_sequences_def)
  have inner: "netOnZeroDXC_xc_check_sequences other na nb W L tau =
      (if \<not> int_ok (L * W) then stop_run (Faulted SignedOverflow)
       else if to_size_t L = 0 then stop_run (Faulted DivisionByZero)
       else if expected_diagram_size (length (other ! nat na)) L W tau < 1
       then ([Stderr ErrNegativeDiagramSize], Inr (1, L))
       else if odd L then ([Stderr (WarnOddBaseWidth (L - 1))], Inr (0, L - 1))
       else ([], Inr (0, L)))"
    if "na < int (length sequences)" and "length other = length sequences"
    for other :: "real list list"
  proof -
    have "nat na < length other"
      using that assms(1) by linarith
    then show ?thesis
      using na nb that(2) by (simp add: netOnZeroDXC_xc_check_sequences_def c_rem_2)
  qed
  show ?thesis
  proof (intro conjI impI allI)
    assume "na = int (length sequences)"
    then show "netOnZeroDXC_xc_check_sequences sequences na nb W L tau =
      stop_run (Faulted OutOfRange)"
      by (rule last)
  next
    assume lt: "na < int (length sequences)" and "int_ok (L * W) \<and> to_size_t L \<noteq> 0"
    then show "netOnZeroDXC_xc_check_sequences sequences na nb W L tau =
                (if expected_diagram_size (length (sequences ! nat na)) L W tau < 1
                 then ([Stderr ErrNegativeDiagramSize], Inr (1, L))
                 else if odd L then ([Stderr (WarnOddBaseWidth (L - 1))], Inr (0, L - 1))
                 else ([], Inr (0, L)))"
      using inner [OF lt, of sequences] by simp
  next
    fix other :: "real list list"
    assume lt: "na < int (length sequences)"
      and "length other = length sequences \<and>
           length (other ! nat na) = length (sequences ! nat na)"
    then show "netOnZeroDXC_xc_check_sequences other na nb W L tau =
              netOnZeroDXC_xc_check_sequences sequences na nb W L tau"
      using inner [OF lt, of other] inner [OF lt, of sequences] by simp
  qed
qed

theorem check_sequences_indexes_na_witness:
  "netOnZeroDXC_xc_check_sequences [replicate 100 0, replicate 100 0] 2 1 3 10 0 =
     stop_run (Faulted OutOfRange) \<and>
   netOnZeroDXC_xc_check_sequences [replicate 100 0, replicate 35 0, replicate 100 0] 1 2 3 10 0 =
     ([Stderr ErrNegativeDiagramSize], Inr (1, 10)) \<and>
   netOnZeroDXC_xc_check_sequences [replicate 35 0, replicate 100 0, replicate 100 0] 1 2 3 10 0 =
     ([], Inr (0, 10)) \<and>
   netOnZeroDXC_xc_check_sequences [replicate 35 0, replicate 100 0, replicate 100 0] 1 2 3 11 0 =
     ([Stderr (WarnOddBaseWidth 10)], Inr (0, 10)) \<and>
   netOnZeroDXC_xc_check_sequences [replicate 100 0, replicate 35 0, replicate 100 0] 1 2 3 10 0 =
     netOnZeroDXC_xc_check_sequences [[], replicate 35 0, []] 1 2 3 10 0"
proof -
  have ok: "int_ok 1" "int_ok 2" "int_ok 30" "int_ok 33"
    "to_size_t 10 \<noteq> 0" "to_size_t 11 \<noteq> 0"
    by (simp_all add: int_ok_def INT_MIN_def INT_MAX_def to_size_t_def)
  have size: "expected_diagram_size 35 10 3 0 = 0" "expected_diagram_size 100 10 3 0 = 7"
    "expected_diagram_size 100 11 3 0 = 6"
    by (simp_all add: expected_diagram_size_def size_sub_def to_size_t_def)
  have a: "netOnZeroDXC_xc_check_sequences [replicate 100 0, replicate 100 0] 2 1 3 10 0 =
     stop_run (Faulted OutOfRange)"
    by (rule check_sequences_indexes_na [THEN conjunct1, THEN mp]) (simp_all add: ok)
  have b: "netOnZeroDXC_xc_check_sequences [replicate 100 0, replicate 35 0, replicate 100 0] 1 2 3 10 0 =
     ([Stderr ErrNegativeDiagramSize], Inr (1, 10))"
    using check_sequences_indexes_na [of 1 2 "[replicate 100 0, replicate 35 0, replicate 100 0]"
        3 10 0, THEN conjunct2, THEN mp, THEN conjunct1, THEN mp]
    by (simp add: ok size)
  have c: "netOnZeroDXC_xc_check_sequences [replicate 35 0, replicate 100 0, replicate 100 0] 1 2 3 10 0 =
     ([], Inr (0, 10))"
    using check_sequences_indexes_na [of 1 2 "[replicate 35 0, replicate 100 0, replicate 100 0]"
        3 10 0, THEN conjunct2, THEN mp, THEN conjunct1, THEN mp]
    by (simp add: ok size)
  have d: "netOnZeroDXC_xc_check_sequences [replicate 35 0, replicate 100 0, replicate 100 0] 1 2 3 11 0 =
     ([Stderr (WarnOddBaseWidth 10)], Inr (0, 10))"
    using check_sequences_indexes_na [of 1 2 "[replicate 35 0, replicate 100 0, replicate 100 0]"
        3 11 0, THEN conjunct2, THEN mp, THEN conjunct1, THEN mp]
    by (simp add: ok size)
  have other: "\<forall>other. length other = length [[], replicate 35 (0::real), []] \<and>
                 length (other ! nat 1) = length ([[], replicate 35 (0::real), []] ! nat 1) \<longrightarrow>
           netOnZeroDXC_xc_check_sequences other 1 2 3 10 0 =
           netOnZeroDXC_xc_check_sequences [[], replicate 35 0, []] 1 2 3 10 0"
    by (rule check_sequences_indexes_na [THEN conjunct2, THEN mp, THEN conjunct2])
       (simp_all add: ok)
  have e: "netOnZeroDXC_xc_check_sequences [replicate 100 0, replicate 35 0, replicate 100 0] 1 2 3 10 0 =
     netOnZeroDXC_xc_check_sequences [[], replicate 35 0, []] 1 2 3 10 0"
    by (rule other [THEN spec, THEN mp]) simp
  from a b c d e show ?thesis by blast
qed

section \<open>The seed schedule of the sequential loop\<close>

lemma gen_seeds_append: "gen_seeds (xs @ ys) = gen_seeds xs @ gen_seeds ys"
  by (simp add: gen_seeds_def List.map_filter_def)

lemma sequential_trial_seeds:
  "gen_seeds (fst (sequential_trial env opts lv st)) = [seed st, seed st + 1]"
  "seed (snd (sequential_trial env opts lv st)) = seed st + 2"
  by (simp_all add: sequential_trial_def Let_def gen_seeds_def List.map_filter_def)

lemma sequential_trials_seeds_from:
  "nat (nr_surrogates opts - i) = n \<Longrightarrow>
   gen_seeds (fst (sequential_trials env opts lv i st)) =
     concat (map (\<lambda>j. [seed st + 2 * of_nat j, seed st + 2 * of_nat j + 1]) [0..<n]) \<and>
   seed (snd (sequential_trials env opts lv i st)) = seed st + 2 * of_nat n"
proof (induction n arbitrary: i st)
  case 0
  then have "\<not> i < nr_surrogates opts" by simp
  then show ?case
    by (subst sequential_trials.simps, subst (2) sequential_trials.simps) (simp add: gen_seeds_def List.map_filter_def)
next
  case (Suc n)
  then have lt: "i < nr_surrogates opts" and n: "nat (nr_surrogates opts - (i + 1)) = n"
    by linarith+
  obtain es st' where t: "sequential_trial env opts lv st = (es, st')"
    by (cases "sequential_trial env opts lv st")
  obtain es' st'' where r: "sequential_trials env opts lv (i + 1) st' = (es', st'')"
    by (cases "sequential_trials env opts lv (i + 1) st'")
  have unf: "sequential_trials env opts lv i st = (es @ es', st'')"
    using lt t r by (subst sequential_trials.simps) simp
  have es: "gen_seeds es = [seed st, seed st + 1]" and st': "seed st' = seed st + 2"
    using sequential_trial_seeds [of env opts lv st] t by simp_all
  have ih: "gen_seeds es' =
      concat (map (\<lambda>j. [seed st' + 2 * of_nat j, seed st' + 2 * of_nat j + 1]) [0..<n])"
    and ih2: "seed st'' = seed st' + 2 * of_nat n"
    using Suc.IH [OF n, of st'] r by simp_all
  have split: "[0..<Suc n] = 0 # map Suc [0..<n]"
    by (simp add: upt_conv_Cons map_Suc_upt del: upt_Suc)
  show ?case
    unfolding unf split
    by (simp add: gen_seeds_append es ih ih2 st' comp_def algebra_simps del: upt_Suc)
qed

text \<open>
  Claim C8. In the sequential loop the seed is advanced by one after each generation
  of a surrogate sequence: the trial of index \<open>i\<close> passes \<open>base + 2 * i\<close> to the first
  generation and \<open>base + 2 * i + 1\<close> to the second, in \<^verbatim>\<open>unsigned int\<close> arithmetic, where
  \<open>base\<close> is the seed before the loop; after the loop the seed is \<open>base + 2 * M\<close>.
\<close>

theorem sequential_seed_schedule:
  "gen_seeds (fst (sequential_trials env opts lv 0 st)) =
     concat (map (\<lambda>i. [seed st + 2 * of_nat i, seed st + 2 * of_nat i + 1])
               [0..<nat (nr_surrogates opts)]) \<and>
   seed (snd (sequential_trials env opts lv 0 st)) = seed st + 2 * of_nat (nat (nr_surrogates opts))"
  using sequential_trials_seeds_from [of opts 0 "nat (nr_surrogates opts)" env lv st] by simp

theorem sequential_seed_schedule_witness:
  "gen_seeds (fst (sequential_trials (sample_env []) (initial_options\<lparr>nr_surrogates := 3\<rparr>)
      \<lparr>loaded_sequences = [], dummy_vector = [], correlation_diagram_data = [],
       values_distribution_a = [], fft_amplitudes_a = [],
       values_distribution_b = [], fft_amplitudes_b = []\<rparr>
      0 \<lparr>seed = 1000, p_value_diagram = []\<rparr>)) =
   [1000, 1001, 1002, 1003, 1004, 1005]"
proof -
  have sel: "nr_surrogates (initial_options\<lparr>nr_surrogates := 3\<rparr>) = 3"
       "seed \<lparr>seed = 1000, p_value_diagram = []\<rparr> = 1000"
    by simp_all
  have ev: "concat (map (\<lambda>i. [1000 + 2 * of_nat i, 1000 + 2 * of_nat i + 1]) [0..<nat 3]) =
        [1000, 1001, 1002, 1003, 1004, 1005 :: 32 word]"
    by code_simp
  show ?thesis
    using sequential_seed_schedule [of "sample_env []" "initial_options\<lparr>nr_surrogates := 3\<rparr>"
      "\<lparr>loaded_sequences = [], dummy_vector = [], correlation_diagram_data = [],
       values_distribution_a = [], fft_amplitudes_a = [],
       values_distribution_b = [], fft_amplitudes_b = []\<rparr>"
      "\<lparr>seed = 1000, p_value_diagram = []\<rparr>"]
    unfolding sel ev by (rule conjunct1)
qed

section \<open>The bounds of the p-values\<close>

lemma accumulate_row_bound:
  "\<forall>c \<in> set cs. c \<le> n \<Longrightarrow> \<forall>c \<in> set (accumulate_row cs rs ss). c \<le> Suc n"
  by (induction cs rs ss rule: accumulate_row.induct) auto

lemma accumulate_bound:
  "\<forall>row \<in> set p. \<forall>c \<in> set row. c \<le> n \<Longrightarrow>
   \<forall>row \<in> set (accumulate p rd sd). \<forall>c \<in> set row. c \<le> Suc n"
proof (induction p rd sd rule: accumulate.induct)
  case (1 c cs r rs s ss)
  then show ?case using accumulate_row_bound [of c n r s] by simp
qed (auto intro: le_SucI)

lemma accumulate_all_bound:
  "\<forall>row \<in> set p. \<forall>c \<in> set row. c \<le> n \<Longrightarrow>
   \<forall>row \<in> set (foldl (\<lambda>counters s. accumulate counters rd s) p sds). \<forall>c \<in> set row. c \<le> n + length sds"
proof (induction sds arbitrary: p n)
  case Nil
  then show ?case by simp
next
  case (Cons s sds)
  have "\<forall>row \<in> set (accumulate p rd s). \<forall>c \<in> set row. c \<le> Suc n"
    using Cons.prems by (rule accumulate_bound)
  from Cons.IH [OF this] show ?case by simp
qed

text \<open>
  Claim C7. With at least one trial, after all trials have been accumulated and the
  counters divided by the number of trials, every cell of the p-value diagram lies
  between 0 and 1.
\<close>

theorem pvalue_diagram_bounds:
  assumes "surrogateDiagrams \<noteq> []"
  shows "\<forall>row \<in> set (pvalue_diagram W K realDiagram surrogateDiagrams).
           \<forall>p \<in> set row. 0 \<le> p \<and> p \<le> 1"
proof -
  let ?M = "length surrogateDiagrams"
  let ?counters = "foldl (\<lambda>counters s. accumulate counters realDiagram s)
                     (replicate W (replicate K 0)) surrogateDiagrams"
  have M: "0 < ?M" using assms by simp
  have "\<forall>row \<in> set (replicate W (replicate K (0::nat))). \<forall>c \<in> set row. c \<le> 0"
    by simp
  from accumulate_all_bound [OF this, of realDiagram surrogateDiagrams]
  have bound: "\<forall>row \<in> set ?counters. \<forall>c \<in> set row. c \<le> ?M"
    by simp
  show ?thesis
  proof (intro ballI)
    fix row p
    assume "row \<in> set (pvalue_diagram W K realDiagram surrogateDiagrams)" and "p \<in> set row"
    then obtain crow c where "crow \<in> set ?counters" and "c \<in> set crow"
      and p: "p = real c / real ?M"
      by (auto simp: pvalue_diagram_def finalize_def)
    with bound have "c \<le> ?M" by blast
    with M show "0 \<le> p \<and> p \<le> 1"
      by (simp add: p)
  qed
qed

theorem pvalue_diagram_bounds_witness:
  "[[[1, 1]], [[- 1 / 2, 3]]] \<noteq> ([] :: real list list list) \<and>
   pvalue_diagram 1 2 [[1 / 2, - 3]] [[[1, 1]], [[- 1 / 2, 3]]] = [[1, 1 / 2]] \<and>
   list_all (list_all (\<lambda>p. 0 \<le> p \<and> p \<le> 1))
     (pvalue_diagram 1 2 [[1 / 2, - 3]] [[[1, 1]], [[- 1 / 2, 3]]])"
proof -
  have ne: "[[[1, 1]], [[- 1 / 2, 3]]] \<noteq> ([] :: real list list list)"
    by simp
  have ev: "pvalue_diagram 1 2 [[1 / 2, - 3]] [[[1, 1]], [[- 1 / 2, 3]]] = [[1, 1 / 2]]"
    by code_simp
  have "\<forall>row \<in> set (pvalue_diagram 1 2 [[1 / 2, - 3]] [[[1, 1]], [[- 1 / 2, 3]]]).
          \<forall>p \<in> set row. 0 \<le> p \<and> p \<le> 1"
    using ne by (rule pvalue_diagram_bounds)
  then have "list_all (list_all (\<lambda>p. 0 \<le> p \<and> p \<le> 1))
     (pvalue_diagram 1 2 [[1 / 2, - 3]] [[[1, 1]], [[- 1 / 2, 3]]])"
    unfolding list_all_iff .
  with ne ev show ?thesis by blast
qed

section \<open>The rows of the diagrams\<close>

lemma dummy_vector_loop_count:
  assumes "0 < L" and "int bound + L \<le> INT_MAX"
  shows "0 \<le> k \<Longrightarrow> k \<le> INT_MAX \<Longrightarrow>
         dummy_vector_loop L bound k v =
           Some (Inr (v @ replicate (nat ((int bound - k + L - 1) div L)) 0))"
proof (induction "nat (int bound - k)" arbitrary: k v rule: less_induct)
  case less
  have k: "to_size_t k = nat k"
    using less.prems by (simp add: to_size_t_small INT_MAX_def)
  show ?case
  proof (cases "k < int bound")
    case False
    then have "(int bound - k + L - 1) div L \<le> (L - 1) div L"
      using assms(1) by (intro zdiv_mono1) simp_all
    then have "(int bound - k + L - 1) div L \<le> 0"
      using assms(1) by (simp add: div_pos_pos_trivial)
    moreover have "\<not> nat k < bound"
      using False less.prems by linarith
    ultimately show ?thesis
      using k by (subst dummy_vector_loop.simps) simp
  next
    case True
    then have ok: "int_ok (k + L)"
      using assms less.prems by (simp add: int_ok_def INT_MIN_def INT_MAX_def)
    have "dummy_vector_loop L bound (k + L) (v @ [0]) =
            Some (Inr ((v @ [0]) @ replicate (nat ((int bound - (k + L) + L - 1) div L)) 0))"
      using True assms less.prems by (intro less.hyps) simp_all
    moreover have "nat ((int bound - k + L - 1) div L) = Suc (nat ((int bound - k - 1) div L))"
    proof -
      have "(int bound - k + L - 1) div L = (int bound - k - 1) div L + 1"
        using assms(1) div_add_self2 [of L "int bound - k - 1"] by (simp add: algebra_simps)
      moreover have "0 \<le> (int bound - k - 1) div L"
        using True assms(1) by (simp add: pos_imp_zdiv_nonneg_iff)
      ultimately show ?thesis by simp
    qed
    moreover have "nat k < bound"
      using True less.prems by linarith
    ultimately show ?thesis
      using k ok by (subst dummy_vector_loop.simps) (simp add: replicate_append_same)
  qed
qed

lemma size_sub_small: "b \<le> a \<Longrightarrow> int a < 2 ^ 64 \<Longrightarrow> size_sub a b = a - b"
  by (simp add: size_sub_def nat_diff_distrib')

lemma floor_shift:
  assumes "0 < L" and "0 \<le> t"
  shows "a div L - t \<le> (a - t) div (L::int)"
proof -
  have "(a + (- t) * L) div L = - t + a div L"
    using assms(1) by (intro div_mult_self1) simp
  then have "a div L - t = (a - t * L) div L"
    by simp
  also have "\<dots> \<le> (a - t) div L"
  proof (rule zdiv_mono1)
    have "t * 1 \<le> t * L" using assms by (intro mult_left_mono) simp_all
    then show "a - t * L \<le> a - t" by simp
  qed (rule assms(1))
  finally show ?thesis .
qed

text \<open>
  Claim C1, as the code has it. For a positive even \<^verbatim>\<open>L\<close>, a positive \<^verbatim>\<open>W\<close> and a
  selected sequence of length \<open>N\<close> with \<open>L * W + (tau > 0 ? tau : 0) \<le> N\<close> (and \<open>N + L\<close>
  within \<^verbatim>\<open>int\<close>), the loop of lines 111 to 117 returns a \<^verbatim>\<open>dummy_vector\<close> of
  \<open>floor ((N - L * W - (tau > 0 ? tau : 0)) / L) + 1\<close> entries, one per window centre;
  the diagrams allocated from it at lines 118 and 119 have \<open>W\<close> rows of that one length.
  The quantity \<open>floor ((N - L * W) / L) - (tau > 0 ? tau : 0)\<close> that
  \<^verbatim>\<open>netOnZeroDXC_xc_check_sequences\<close> tests is strictly smaller than the length of a row.
\<close>

theorem diagram_rows_have_loop_length:
  assumes W: "nr_window_widths opts = W" "0 < W"
    and L: "window_basewidth opts = L" "0 < L" "even L"
    and tau: "apply_tau opts = tau" "int_ok tau"
    and idx: "to_size_t (index_a opts) < length loaded"
    and N: "length (loaded ! to_size_t (index_a opts)) = N"
    and fit: "L * W + (if tau > 0 then tau else 0) \<le> int N"
    and range: "int N + L \<le> INT_MAX"
  shows "\<exists>dummy. build_dummy_vector loaded opts = ([], Inr dummy) \<and>
           int (length dummy) = (int N - L * W - (if tau > 0 then tau else 0)) div L + 1 \<and>
           length (replicate (to_size_t W) dummy) = nat W \<and>
           (\<forall>row \<in> set (replicate (to_size_t W) dummy). length row = length dummy) \<and>
           expected_diagram_size N L W tau < int (length dummy)"
proof -
  define t where "t = (if tau > 0 then tau else 0)"
  define half where "half = c_div (W * L) 2"
  define bound where "bound = (if tau > 0 then size_sub (size_sub N (to_size_t half)) (to_size_t tau)
                     else size_sub N (to_size_t half))"
  have t0: "0 \<le> t" by (simp add: t_def)
  have WL: "0 < W * L" using W(2) L(2) by simp
  have fit': "L * W + t \<le> int N" using fit by (simp add: t_def)
  have N64: "int N < 2 ^ 64" using range L(2) by (simp add: INT_MAX_def)
  have okWL: "int_ok (W * L)"
    using fit' t0 range L(2) WL by (simp add: int_ok_def INT_MIN_def INT_MAX_def mult.commute)
  have half: "2 * half = W * L" "0 < half"
  proof -
    have h: "half = W * L div 2" using WL by (simp add: half_def c_div_def)
    show "2 * half = W * L" using L(3) by (simp add: h)
    then show "0 < half" using WL by linarith
  qed
  have halfN: "half + t \<le> int N"
    using fit' half WL by (simp add: mult.commute)
  have szhalf: "to_size_t half = nat half"
    using half halfN t0 N64 by (intro to_size_t_small) simp_all
  have sztau: "0 < tau \<Longrightarrow> to_size_t tau = nat tau"
    using tau(2) by (simp add: to_size_t_int_ok)
  have sub1: "size_sub N (nat half) = N - nat half"
    using halfN half t0 N64 by (intro size_sub_small) simp_all
  have bound: "int bound = int N - half - t"
  proof (cases "0 < tau")
    case True
    have "size_sub (N - nat half) (nat tau) = N - nat half - nat tau"
      using halfN half True N64 by (intro size_sub_small) (simp_all add: t_def)
    moreover have "int (N - nat half - nat tau) = int N - half - tau"
      using True halfN half(2) unfolding t_def by (simp split: if_splits)
    ultimately show ?thesis
      using True sub1 by (simp add: bound_def szhalf sztau t_def)
  next
    case False
    moreover have "int (N - nat half) = int N - half"
      using halfN half(2) t0 by linarith
    ultimately show ?thesis
      using sub1 by (simp add: bound_def szhalf t_def)
  qed
  have loop: "dummy_vector_loop L bound (half - 1) [] =
      Some (Inr ([] @ replicate (nat ((int bound - (half - 1) + L - 1) div L)) 0))"
    using L(2) half halfN t0 range bound
    by (intro dummy_vector_loop_count) (simp_all add: INT_MAX_def)
  have cnt: "(int bound - (half - 1) + L - 1) div L = (int N - L * W - t) div L + 1"
  proof -
    have e: "int bound - (half - 1) + L - 1 = (int N - L * W - t) + L"
      using half(1) by (simp add: bound mult.commute)
    have "((int N - L * W - t) + L) div L = (int N - L * W - t) div L + 1"
      using L(2) by simp
    then show ?thesis unfolding e .
  qed
  have nonneg: "0 \<le> (int N - L * W - t) div L"
    using fit' L(2) by (simp add: pos_imp_zdiv_nonneg_iff)
  let ?dummy = "replicate (nat ((int N - L * W - t) div L + 1)) (0::real)"
  have loop': "dummy_vector_loop L bound (half - 1) [] = Some (Inr ?dummy)"
    using loop [unfolded cnt] by simp
  have build: "build_dummy_vector loaded opts = ([], Inr ?dummy)"
    using idx okWL
    by (simp add: build_dummy_vector_def Let_def W(1) L(1) tau(1) N half_def [symmetric]
        bound_def [symmetric] loop')
  have len: "int (length ?dummy) = (int N - L * W - t) div L + 1"
    using nonneg by simp
  have szW: "to_size_t W = nat W"
  proof -
    have "W \<le> L * W" using W(2) L(2) by simp
    then have "W < 2 ^ 64" using fit' N64 t0 by linarith
    then show ?thesis
      using W(2) by (intro to_size_t_small) simp_all
  qed
  have expd: "expected_diagram_size N L W tau = (int N - L * W) div L - t"
  proof -
    have "to_size_t (L * W) = nat (L * W)"
      using okWL WL by (intro to_size_t_int_ok) (simp_all add: mult.commute)
    moreover have "size_sub N (nat (L * W)) = N - nat (L * W)"
      using fit' t0 N64 by (intro size_sub_small) simp_all
    moreover have "to_size_t L = nat L"
      using L(2) range by (intro to_size_t_small) (simp_all add: INT_MAX_def)
    moreover have "int ((N - nat (L * W)) div nat L) = (int N - L * W) div L"
      using fit' t0 L(2) WL by (simp add: zdiv_int mult.commute of_nat_diff)
    ultimately show ?thesis
      by (simp add: expected_diagram_size_def t_def)
  qed
  have less: "expected_diagram_size N L W tau < int (length ?dummy)"
    using floor_shift [OF L(2) t0, of "int N - L * W"] by (simp add: expd len del: length_replicate)
  show ?thesis
  proof (intro exI conjI)
    show "build_dummy_vector loaded opts = ([], Inr ?dummy)"
      by (rule build)
    show "int (length ?dummy) = (int N - L * W - (if tau > 0 then tau else 0)) div L + 1"
      using len unfolding t_def .
    show "length (replicate (to_size_t W) ?dummy) = nat W"
      by (simp add: szW)
    show "\<forall>row \<in> set (replicate (to_size_t W) ?dummy). length row = length ?dummy"
      by simp
    show "expected_diagram_size N L W tau < int (length ?dummy)"
      by (rule less)
  qed
qed

theorem diagram_rows_have_loop_length_witness:
  "0 < (3::int) \<and> 0 < (10::int) \<and> even (10::int) \<and> int_ok (- 1) \<and>
   10 * 3 + (if (- 1 :: int) > 0 then - 1 else 0) \<le> int 100 \<and> int 100 + 10 \<le> INT_MAX \<and>
   (\<exists>dummy.
      build_dummy_vector [replicate 100 0, replicate 100 0]
        (initial_options\<lparr>index_a := 0, index_b := 1, nr_window_widths := 3,
                           window_basewidth := 10\<rparr>) = ([], Inr dummy) \<and>
      length dummy = 8 \<and>
      expected_diagram_size 100 10 3 (- 1) < int (length dummy))"
proof -
  let ?opts = "initial_options\<lparr>index_a := 0, index_b := 1, nr_window_widths := 3,
                                window_basewidth := 10\<rparr>"
  let ?loaded = "[replicate 100 0, replicate 100 (0::real)]"
  have h: "0 < (3::int)" "0 < (10::int)" "even (10::int)" "int_ok (- 1)"
    "10 * 3 + (if (- 1 :: int) > 0 then - 1 else 0) \<le> int 100" "int 100 + 10 \<le> INT_MAX"
    by (simp_all add: int_ok_def INT_MIN_def INT_MAX_def)
  have o: "nr_window_widths ?opts = 3" "window_basewidth ?opts = 10" "apply_tau ?opts = - 1"
    "to_size_t (index_a ?opts) < length ?loaded"
    "length (?loaded ! to_size_t (index_a ?opts)) = 100"
    by (simp_all add: initial_options_def to_size_t_def)
  from diagram_rows_have_loop_length [OF o(1) h(1) o(2) h(2) h(3) o(3) h(4) o(4) o(5) h(5) h(6)]
  obtain dummy where "build_dummy_vector ?loaded ?opts = ([], Inr dummy)"
    and "int (length dummy) = (int 100 - 10 * 3 - (if (- 1 :: int) > 0 then - 1 else 0)) div 10 + 1"
    and "expected_diagram_size 100 10 3 (- 1) < int (length dummy)"
    by blast
  then have "build_dummy_vector ?loaded ?opts = ([], Inr dummy) \<and> length dummy = 8 \<and>
      expected_diagram_size 100 10 3 (- 1) < int (length dummy)"
    by simp
  with h show ?thesis by blast
qed

text \<open>
  Claim C1, as stated, fails: for two sequences of length 100 with \<^verbatim>\<open>L = 10\<close>, \<^verbatim>\<open>W = 3\<close> and
  no \<^verbatim>\<open>tau\<close>, the centres are 14, 24, \<open>\<dots>\<close>, 84 and a row has 8 entries, while
  \<open>floor ((100 - 10 * 3) / 10) - 0\<close> is 7.
\<close>

theorem row_length_formula_counterexample:
  "build_dummy_vector [replicate 100 0, replicate 100 0]
     (initial_options\<lparr>index_a := 0, index_b := 1, nr_window_widths := 3,
                        window_basewidth := 10\<rparr>) = ([], Inr (replicate 8 0)) \<and>
   expected_diagram_size 100 10 3 (- 1) = 7 \<and>
   int (length (replicate 8 (0::real))) \<noteq>
     (int 100 - 10 * 3) div 10 - (if (- 1 :: int) > 0 then - 1 else 0)"
  by code_simp

section \<open>The seeds of the parallel loop\<close>

lemma parallel_trial_result:
  assumes "int_ok (2 * i)"
  shows "\<exists>es st'. parallel_trial env opts lv i st = (es, Inr st') \<and>
           gen_seeds es = [seed st + word_of_int (2 * i), seed st + word_of_int (2 * i) + 1] \<and>
           seed st' = seed st + word_of_int (2 * i) + 1"
  using assms by (simp add: parallel_trial_def Let_def gen_seeds_def List.map_filter_def)

lemma parallel_trials_seeds_from:
  "nat (nr_surrogates opts - i) = n \<Longrightarrow> 0 \<le> i \<Longrightarrow> 2 * nr_surrogates opts \<le> INT_MAX \<Longrightarrow>
   gen_seeds (fst (parallel_trials env opts lv i st)) =
     concat (map (\<lambda>j. [seed st + word_of_int ((int j + 1) * (2 * i + int j) + int j),
                        seed st + word_of_int ((int j + 1) * (2 * i + int j) + int j) + 1])
               [0..<n])"
proof (induction n arbitrary: i st)
  case 0
  then have "\<not> i < nr_surrogates opts" by simp
  then show ?case
    by (subst parallel_trials.simps) (simp add: gen_seeds_def List.map_filter_def return_run_def)
next
  case (Suc n)
  then have lt: "i < nr_surrogates opts" and n: "nat (nr_surrogates opts - (i + 1)) = n"
    by linarith+
  have ok: "int_ok (2 * i)"
    using lt Suc.prems by (simp add: int_ok_def INT_MIN_def INT_MAX_def)
  from parallel_trial_result [OF ok, of env opts lv st]
  obtain es st' where t: "parallel_trial env opts lv i st = (es, Inr st')"
    and es: "gen_seeds es = [seed st + word_of_int (2 * i), seed st + word_of_int (2 * i) + 1]"
    and st': "seed st' = seed st + word_of_int (2 * i) + 1"
    by blast
  have unf: "fst (parallel_trials env opts lv i st) =
      es @ fst (parallel_trials env opts lv (i + 1) st')"
    using lt t by (subst parallel_trials.simps) (simp add: bind_run_def split: prod.splits)
  have ih: "gen_seeds (fst (parallel_trials env opts lv (i + 1) st')) =
     concat (map (\<lambda>j. [seed st' + word_of_int ((int j + 1) * (2 * (i + 1) + int j) + int j),
                        seed st' + word_of_int ((int j + 1) * (2 * (i + 1) + int j) + int j) + 1])
               [0..<n])"
    using Suc.prems by (intro Suc.IH [OF n]) simp_all
  have split: "[0..<Suc n] = 0 # map Suc [0..<n]"
    by (simp add: upt_conv_Cons map_Suc_upt del: upt_Suc)
  have "gen_seeds (fst (parallel_trials env opts lv i st)) =
      [seed st + word_of_int (2 * i), seed st + word_of_int (2 * i) + 1] @
      concat (map (\<lambda>j. [seed st' + word_of_int ((int j + 1) * (2 * (i + 1) + int j) + int j),
                        seed st' + word_of_int ((int j + 1) * (2 * (i + 1) + int j) + int j) + 1])
               [0..<n])"
    by (simp only: unf gen_seeds_append es ih)
  also have "\<dots> =
      concat (map (\<lambda>j. [seed st + word_of_int ((int j + 1) * (2 * i + int j) + int j),
                        seed st + word_of_int ((int j + 1) * (2 * i + int j) + int j) + 1])
               [0..<Suc n])"
    unfolding split by (simp add: st' comp_def algebra_simps del: upt_Suc)
  finally show ?case .
qed

text \<open>
  Claim C2, evaluated on the code. The parallel loop adds \<^verbatim>\<open>2 * i\<close> to the shared
  \<^verbatim>\<open>seed\<close> and then increments it, so the seeds depend on the trials that ran before.
  With one worker running the trials in order, trial \<open>i\<close> passes \<open>base + i * (i + 2)\<close> to
  the first generation and \<open>base + i * (i + 2) + 1\<close> to the second, not \<open>base + 2 * i\<close>
  and \<open>base + 2 * i + 1\<close>: trial 1 gets \<open>base + 3\<close> and \<open>base + 4\<close>.
\<close>

theorem parallel_seed_schedule:
  assumes "2 * nr_surrogates opts \<le> INT_MAX"
  shows "gen_seeds (fst (parallel_trials env opts lv 0 st)) =
     concat (map (\<lambda>i. [seed st + word_of_nat (i * (i + 2)), seed st + word_of_nat (i * (i + 2)) + 1])
               [0..<nat (nr_surrogates opts)])"
  using parallel_trials_seeds_from [of opts 0 "nat (nr_surrogates opts)" env lv st] assms
  by (simp add: algebra_simps)

theorem parallel_seed_schedule_witness:
  "2 * nr_surrogates (initial_options\<lparr>nr_surrogates := 3\<rparr>) \<le> INT_MAX \<and>
   gen_seeds (fst (parallel_trials (sample_env []) (initial_options\<lparr>nr_surrogates := 3\<rparr>)
      \<lparr>loaded_sequences = [], dummy_vector = [], correlation_diagram_data = [],
       values_distribution_a = [], fft_amplitudes_a = [],
       values_distribution_b = [], fft_amplitudes_b = []\<rparr>
      0 \<lparr>seed = 1000, p_value_diagram = []\<rparr>)) =
   [1000, 1001, 1003, 1004, 1008, 1009]"
proof -
  have sel: "nr_surrogates (initial_options\<lparr>nr_surrogates := 3\<rparr>) = 3"
       "seed \<lparr>seed = 1000, p_value_diagram = []\<rparr> = 1000"
    by simp_all
  have small: "2 * nr_surrogates (initial_options\<lparr>nr_surrogates := 3\<rparr>) \<le> INT_MAX"
    by (simp add: INT_MAX_def)
  have ev: "concat (map (\<lambda>i. [1000 + word_of_nat (i * (i + 2)), 1000 + word_of_nat (i * (i + 2)) + 1])
               [0..<nat 3]) = [1000, 1001, 1003, 1004, 1008, 1009 :: 32 word]"
    by code_simp
  have "gen_seeds (fst (parallel_trials (sample_env []) (initial_options\<lparr>nr_surrogates := 3\<rparr>)
      \<lparr>loaded_sequences = [], dummy_vector = [], correlation_diagram_data = [],
       values_distribution_a = [], fft_amplitudes_a = [],
       values_distribution_b = [], fft_amplitudes_b = []\<rparr>
      0 \<lparr>seed = 1000, p_value_diagram = []\<rparr>)) =
   [1000, 1001, 1003, 1004, 1008, 1009]"
    using parallel_seed_schedule [OF small, of "sample_env []"
      "\<lparr>loaded_sequences = [], dummy_vector = [], correlation_diagram_data = [],
       values_distribution_a = [], fft_amplitudes_a = [],
       values_distribution_b = [], fft_amplitudes_b = []\<rparr>"
      "\<lparr>seed = 1000, p_value_diagram = []\<rparr>"]
    unfolding sel ev .
  with small show ?thesis by blast
qed

text \<open>
  Claim C3, evaluated on the code. A trial of the parallel loop writes the shared
  variable \<^verbatim>\<open>seed\<close> at lines 160 and 162, before and outside the critical section of
  lines 167 to 170: after trial \<open>i\<close> the shared seed is the seed before it plus
  \<open>2 * i + 1\<close>, which is never the seed before it.
\<close>

theorem parallel_trial_writes_shared_seed:
  assumes "int_ok (2 * i)"
  shows "\<exists>es st'. parallel_trial env opts lv i st = (es, Inr st') \<and>
           seed st' = seed st + word_of_int (2 * i) + 1 \<and> seed st' \<noteq> seed st"
proof -
  from parallel_trial_result [OF assms, of env opts lv st]
  obtain es st' where t: "parallel_trial env opts lv i st = (es, Inr st')"
    and st': "seed st' = seed st + word_of_int (2 * i) + 1"
    by blast
  have "odd (word_of_int (2 * i) + 1 :: 32 word)"
    by simp
  then have "word_of_int (2 * i) + 1 \<noteq> (0 :: 32 word)"
    by (metis even_zero)
  then have "seed st' \<noteq> seed st"
    by (simp add: st' add.assoc)
  with t st' show ?thesis by blast
qed

theorem parallel_trial_writes_shared_seed_witness:
  "int_ok (2 * 1) \<and>
   map_sum id seed (snd (parallel_trial (sample_env []) initial_options
      \<lparr>loaded_sequences = [], dummy_vector = [], correlation_diagram_data = [],
       values_distribution_a = [], fft_amplitudes_a = [],
       values_distribution_b = [], fft_amplitudes_b = []\<rparr>
      1 \<lparr>seed = 1000, p_value_diagram = []\<rparr>)) = Inr 1003"
proof -
  have ok: "int_ok (2 * 1)"
    by (simp add: int_ok_def INT_MIN_def INT_MAX_def)
  from parallel_trial_writes_shared_seed [OF ok, of "sample_env []" initial_options
      "\<lparr>loaded_sequences = [], dummy_vector = [], correlation_diagram_data = [],
       values_distribution_a = [], fft_amplitudes_a = [],
       values_distribution_b = [], fft_amplitudes_b = []\<rparr>"
      "\<lparr>seed = 1000, p_value_diagram = []\<rparr>"]
  obtain es st' where "parallel_trial (sample_env []) initial_options
      \<lparr>loaded_sequences = [], dummy_vector = [], correlation_diagram_data = [],
       values_distribution_a = [], fft_amplitudes_a = [],
       values_distribution_b = [], fft_amplitudes_b = []\<rparr>
      1 \<lparr>seed = 1000, p_value_diagram = []\<rparr> = (es, Inr st')"
    and "seed st' = seed \<lparr>seed = 1000, p_value_diagram = []\<rparr> + word_of_int (2 * 1) + 1"
    by blast
  then show ?thesis using ok by simp
qed

section \<open>Facts about runs\<close>

lemma bind_return [simp]: "bind_run (return_run x) f = f x"
  by (simp add: bind_run_def return_run_def split: prod.splits)

lemma bind_stop [simp]: "bind_run (stop_run s) f = stop_run s"
  by (simp add: bind_run_def stop_run_def)

lemma atoi_cases: "(\<exists>v. atoi s = return_run v) \<or> atoi s = stop_run (Faulted SignedOverflow)"
  by (auto simp: atoi_def Let_def)

lemma bind_atoi:
  assumes "P (stop_run (Faulted SignedOverflow))" and "\<And>v. P (f v)"
  shows "P (bind_run (atoi a) f)"
  using atoi_cases [of a] assms by auto

lemma silent_simps [simp]: "silent (stop_run s)" "silent (return_run x)"
  "silent ([Stderr HelpText], Inl (Exited 0))"
  by (simp_all add: silent_def stop_run_def return_run_def)

lemma silent_bind_atoi: "(\<And>v. silent (f v)) \<Longrightarrow> silent (bind_run (atoi a) f)"
  using atoi_cases [of a] by auto

section \<open>The stages of main\<close>

lemma parse_loop_silent: "silent (parse_loop args opts)"
proof (induction "length args" arbitrary: args opts rule: less_induct)
  case less
  show ?case
  proof (cases args)
    case Nil
    then show ?thesis by simp
  next
    case (Cons arg rest)
    have IH: "length args' \<le> length rest \<Longrightarrow> silent (parse_loop args' opts')" for args' opts'
      using less Cons by simp
    show ?thesis
      unfolding Cons
      apply (subst parse_loop.simps)
      apply (simp split: list.splits add: silent_bind_atoi IH)
      done
  qed
qed

lemma bind_run_Inl: "snd m = Inl s \<Longrightarrow> bind_run m f = (fst m, Inl s)"
  by (cases m) (simp add: bind_run_def)

lemma bind_run_Inr: "snd m = Inr x \<Longrightarrow> bind_run m f = (fst m @ fst (f x), snd (f x))"
  by (cases m) (simp add: bind_run_def split: prod.splits)

lemma list_all_bind_run:
  assumes "list_all P (fst m)" and "\<And>x. snd m = Inr x \<Longrightarrow> list_all P (fst (f x))"
  shows "list_all P (fst (bind_run m f))"
proof (cases "snd m")
  case (Inl s)
  then show ?thesis using assms(1) by (simp add: bind_run_Inl)
next
  case (Inr x)
  then show ?thesis using assms by (simp add: bind_run_Inr)
qed

lemma silent_Inr: "silent r \<Longrightarrow> snd r = Inr x \<Longrightarrow> fst r = []"
  by (auto simp: silent_def)

lemma silent_quiet: "silent r \<Longrightarrow> list_all is_stderr (fst r)"
  by (auto simp: silent_def)

lemma parse_options_quiet:
  "list_all is_stderr (fst (netOnZeroDXC_xc_parse_options argv opts0))"
  unfolding netOnZeroDXC_xc_parse_options_def
proof (rule list_all_bind_run)
  show "list_all is_stderr (fst (parse_loop (drop 1 argv) opts0))"
    by (rule silent_quiet [OF parse_loop_silent])
qed (simp add: Let_def return_run_def)

lemma parse_options_accepts:
  assumes "netOnZeroDXC_xc_parse_options argv opts0 = (es, Inr (0, opts))"
  shows "es = [] \<and> 0 < index_a opts \<and> 0 < index_b opts \<and> 0 < nr_window_widths opts \<and>
         0 < window_basewidth opts"
proof -
  obtain es0 r0 where p: "parse_loop (drop 1 argv) opts0 = (es0, r0)"
    by (cases "parse_loop (drop 1 argv) opts0")
  show ?thesis
  proof (cases r0)
    case (Inl s)
    then show ?thesis
      using assms p by (simp add: netOnZeroDXC_xc_parse_options_def bind_run_Inl)
  next
    case (Inr opts1)
    have "es0 = []"
      using parse_loop_silent [of "drop 1 argv" opts0] p Inr silent_Inr by fastforce
    then show ?thesis
      using assms p Inr
      by (auto simp: netOnZeroDXC_xc_parse_options_def bind_run_Inr Let_def return_run_def
          split: if_splits)
  qed
qed

lemma transpose_table_silent: "fst (transpose_table t) = []"
  by (simp add: transpose_table_def stop_run_def return_run_def split: list.splits)

lemma load_sequences_quiet: "list_all is_stderr (fst (load_sequences env opts))"
  by (simp add: load_sequences_def bind_run_def return_run_def transpose_table_def stop_run_def
      split: prod.splits sum.splits list.splits)

lemma load_sequences_Inr: "load_sequences env opts = (es, Inr x) \<Longrightarrow> es = []"
  by (auto simp: load_sequences_def bind_run_def return_run_def transpose_table_def stop_run_def
      split: prod.splits sum.splits list.splits if_splits)

lemma check_sequences_quiet:
  "list_all is_stderr (fst (netOnZeroDXC_xc_check_sequences sequences na nb W L tau))"
  by (simp add: netOnZeroDXC_xc_check_sequences_def stop_run_def)

lemma check_sequences_accepts:
  assumes "netOnZeroDXC_xc_check_sequences sequences na nb W L tau = (es, Inr (0, L'))"
  shows "even L' \<and> L' = (if odd L then L - 1 else L) \<and>
         es = (if odd L then [Stderr (WarnOddBaseWidth (L - 1))] else [])"
  using assms
  by (auto simp: netOnZeroDXC_xc_check_sequences_def stop_run_def c_rem_2 split: if_splits)

lemma build_dummy_vector_silent: "fst (build_dummy_vector loaded opts) = []"
  by (simp add: build_dummy_vector_def Let_def stop_run_def split: option.splits)

lemma dummy_vector_loop_unfold:
  "to_size_t k < bound \<Longrightarrow> int_ok (k + L) \<Longrightarrow>
   dummy_vector_loop L bound k v = dummy_vector_loop L bound (k + L) (v @ [0])"
  by (subst dummy_vector_loop.simps) simp

lemma dummy_vector_loop_result:
  assumes "dummy_vector_loop L b k v = Some r"
  shows "r = Inl (Faulted SignedOverflow) \<or> (\<exists>v'. r = Inr v')"
  by (rule dummy_vector_loop.raw_induct [OF _ assms])
     (auto split: if_splits simp: dummy_vector_loop_unfold)

lemma build_dummy_vector_stop:
  "snd (build_dummy_vector loaded opts) = Inl s \<Longrightarrow> s \<noteq> Exited n"
  using dummy_vector_loop_result
  by (fastforce simp: build_dummy_vector_def Let_def stop_run_def split: option.splits if_splits)

lemma print_rows_events:
  "list_all is_output (fst (print_rows d n sep)) \<and>
   (snd (print_rows d n sep) = Inl (Faulted OutOfRange) \<or>
    snd (print_rows d n sep) = Inr () \<and> length (fst (print_rows d n sep)) = n)"
proof (induction n arbitrary: d)
  case 0
  show ?case by (simp add: return_run_def)
next
  case (Suc n)
  show ?case
  proof (cases d)
    case Nil
    then show ?thesis by (simp add: stop_run_def)
  next
    case (Cons row rest)
    show ?thesis
      using Suc [of rest]
      by (auto simp: Cons stop_run_def emit_def bind_run_def split: prod.splits sum.splits)
  qed
qed

lemma output_diagram_events: "list_all is_output (fst (output_diagram env opts d))"
  using print_rows_events [of d "nat (nr_window_widths opts)" "separator_char opts"]
  by (auto simp: output_diagram_def bind_run_def return_run_def split: prod.splits sum.splits)

lemma output_diagram_result:
  "snd (output_diagram env opts d) = Inl (Faulted OutOfRange) \<or>
   (\<exists>error. snd (output_diagram env opts d) = Inr error \<and>
      (0 < nr_window_widths opts \<longrightarrow> fst (output_diagram env opts d) \<noteq> []))"
  using print_rows_events [of d "nat (nr_window_widths opts)" "separator_char opts"]
  by (auto simp: output_diagram_def bind_run_def return_run_def split: prod.splits sum.splits)

lemma is_output_basewidth: "is_output e \<Longrightarrow> basewidth_is L e"
  by (cases e) (simp_all add: basewidth_is_def)

lemma is_stderr_basewidth: "is_stderr e \<Longrightarrow> basewidth_is L e"
  by (cases e) (simp_all add: basewidth_is_def)

lemma list_all_mono: "list_all P xs \<Longrightarrow> (\<And>x. P x \<Longrightarrow> Q x) \<Longrightarrow> list_all Q xs"
  by (induction xs) auto

lemma sequential_trial_basewidth:
  "list_all (basewidth_is (window_basewidth opts)) (fst (sequential_trial env opts lv st))"
  by (simp add: sequential_trial_def Let_def basewidth_is_def)

lemma parallel_trial_basewidth:
  "list_all (basewidth_is (window_basewidth opts)) (fst (parallel_trial env opts lv i st))"
  by (simp add: parallel_trial_def Let_def basewidth_is_def stop_run_def)

lemma sequential_trials_basewidth:
  "list_all (basewidth_is (window_basewidth opts)) (fst (sequential_trials env opts lv i st))"
proof (induction env opts lv i st rule: sequential_trials.induct)
  case (1 env opts lv i st)
  show ?case
  proof (cases "i < nr_surrogates opts")
    case False
    then show ?thesis by (subst sequential_trials.simps) simp
  next
    case True
    obtain es st' where t: "sequential_trial env opts lv st = (es, st')"
      by (cases "sequential_trial env opts lv st")
    have "list_all (basewidth_is (window_basewidth opts)) es"
      using sequential_trial_basewidth [of opts env lv st] t by simp
    moreover have "list_all (basewidth_is (window_basewidth opts))
        (fst (sequential_trials env opts lv (i + 1) st'))"
      using True t by (intro "1.IH") simp_all
    ultimately show ?thesis
      using True t by (subst sequential_trials.simps) (auto split: prod.splits)
  qed
qed

lemma parallel_trials_basewidth:
  "list_all (basewidth_is (window_basewidth opts)) (fst (parallel_trials env opts lv i st))"
proof (induction env opts lv i st rule: parallel_trials.induct)
  case (1 env opts lv i st)
  show ?case
  proof (cases "i < nr_surrogates opts")
    case False
    then show ?thesis by (subst parallel_trials.simps) (simp add: return_run_def)
  next
    case True
    have "list_all (basewidth_is (window_basewidth opts))
        (fst (bind_run (parallel_trial env opts lv i st)
               (\<lambda>st'. parallel_trials env opts lv (i + 1) st')))"
      using True by (intro list_all_bind_run parallel_trial_basewidth "1.IH")
    then show ?thesis
      using True by (subst parallel_trials.simps) simp
  qed
qed

lemma fst_case_prod: "fst (case p of (es, st) \<Rightarrow> (es, g st)) = fst p"
  by (cases p) simp

lemma finish_basewidth:
  "list_all (basewidth_is L)
     (fst (bind_run (output_diagram env opts d) (\<lambda>error.
             if error \<noteq> 0 then ([Stderr (ErrWriting f)], Inl (Exited 1)) else r)))"
  if "list_all (basewidth_is L) (fst r)"
proof (rule list_all_bind_run)
  show "list_all (basewidth_is L) (fst (output_diagram env opts d))"
    by (rule list_all_mono [OF output_diagram_events is_output_basewidth])
  show "list_all (basewidth_is L)
     (fst (if error \<noteq> 0 then ([Stderr (ErrWriting f)], Inl (Exited 1)) else r))" for error
    using that by (simp add: basewidth_is_def)
qed

lemma surrogate_phase_basewidth:
  "list_all (basewidth_is (window_basewidth opts))
     (fst (surrogate_phase env opts loaded dummy corr p0))"
proof -
  let ?P = "list_all (basewidth_is (window_basewidth opts))"
  obtain vd_a fft_a where a:
    "netOnZeroDXC_initialize_surrogate_generation env loaded (index_a opts) = (vd_a, fft_a)"
    by (cases "netOnZeroDXC_initialize_surrogate_generation env loaded (index_a opts)")
  obtain vd_b fft_b where b:
    "netOnZeroDXC_initialize_surrogate_generation env loaded (index_b opts) = (vd_b, fft_b)"
    by (cases "netOnZeroDXC_initialize_surrogate_generation env loaded (index_b opts)")
  have trials: "?P (fst (if enable_parallel_computing opts then parallel_trials env opts lv 0 st0
              else (case sequential_trials env opts lv 0 st0 of (es, st) \<Rightarrow> (es, Inr st))))"
    for lv st0
    by (simp add: parallel_trials_basewidth sequential_trials_basewidth fst_case_prod)
  have fin: "?P (fst (bind_run (output_diagram env opts d) (\<lambda>error.
             if error \<noteq> 0
             then ([Stderr (ErrWriting (selected_output_filename opts))], Inl (Exited 1))
             else return_run 0)))" for d
    by (rule finish_basewidth) (simp add: return_run_def)
  show ?thesis
    unfolding surrogate_phase_def a b prod.case Let_def
    by (intro list_all_bind_run trials fin) (simp add: emit_def basewidth_is_def)
qed

lemma diagram_phase_basewidth:
  "list_all (basewidth_is (window_basewidth opts)) (fst (diagram_phase env opts loaded))"
proof -
  let ?P = "list_all (basewidth_is (window_basewidth opts))"
  have fin: "?P (fst (bind_run (output_diagram env opts d) (\<lambda>error.
             if error \<noteq> 0
             then ([Stderr (ErrWriting (selected_output_filename opts))], Inl (Exited 1))
             else stop_run (Exited 0))))" for d
    by (rule finish_basewidth) (simp add: stop_run_def)
  have rest: "?P (fst (if print_corr_diagram opts then
            bind_run (output_diagram env opts d) (\<lambda>error.
              if error \<noteq> 0
              then ([Stderr (ErrWriting (selected_output_filename opts))], Inl (Exited 1))
              else stop_run (Exited 0))
          else surrogate_phase env opts loaded dummy corr p0))" for d dummy corr p0
  proof (cases "print_corr_diagram opts")
    case True
    show ?thesis unfolding if_P [OF True] by (rule fin)
  next
    case False
    show ?thesis unfolding if_not_P [OF False] by (rule surrogate_phase_basewidth)
  qed
  show ?thesis
    unfolding diagram_phase_def Let_def
  proof (intro list_all_bind_run rest)
    show "?P (fst (build_dummy_vector loaded opts))"
      by (simp add: build_dummy_vector_silent)
    show "?P (fst (emit [ComputeCDiagram loaded (index_a opts) (index_b opts)
        (window_basewidth opts) (nr_window_widths opts) (0 < apply_tau opts) (apply_tau opts)]))"
      by (simp add: emit_def basewidth_is_def)
  qed
qed

lemma load_sequences_stop: "snd (load_sequences env opts) = Inl s \<Longrightarrow> s \<noteq> Exited 0"
  by (auto simp: load_sequences_def bind_run_def return_run_def transpose_table_def stop_run_def
      split: prod.splits sum.splits list.splits if_splits)

lemma check_sequences_stop:
  "snd (netOnZeroDXC_xc_check_sequences sequences na nb W L tau) = Inl s \<Longrightarrow> s \<noteq> Exited 0"
  by (auto simp: netOnZeroDXC_xc_check_sequences_def stop_run_def split: if_splits)

lemma main_after_parse:
  assumes p: "netOnZeroDXC_xc_parse_options argv initial_options = (es, Inr (0, opts))"
  shows "(list_all is_stderr (fst (main env argv)) \<and>
          (\<exists>s. snd (main env argv) = Inl s \<and> s \<noteq> Exited 0)) \<or>
         (\<exists>err loaded w L'.
            load_sequences env opts = ([], Inr (err, loaded)) \<and> err \<noteq> 3 \<and> err \<noteq> 5 \<and>
            netOnZeroDXC_xc_check_sequences loaded (index_a opts) (index_b opts)
              (nr_window_widths opts) (window_basewidth opts) (apply_tau opts) = (w, Inr (0, L')) \<and>
            main env argv =
              (w @ fst (diagram_phase env
                     (opts\<lparr>window_basewidth := L', index_a := index_a opts - 1,
                           index_b := index_b opts - 1\<rparr>) loaded),
               snd (diagram_phase env
                     (opts\<lparr>window_basewidth := L', index_a := index_a opts - 1,
                           index_b := index_b opts - 1\<rparr>) loaded)))"
proof -
  let ?check = "\<lambda>loaded. netOnZeroDXC_xc_check_sequences loaded (index_a opts) (index_b opts)
                  (nr_window_widths opts) (window_basewidth opts) (apply_tau opts)"
  let ?dp = "\<lambda>L loaded. diagram_phase env
               (opts\<lparr>window_basewidth := L, index_a := index_a opts - 1,
                     index_b := index_b opts - 1\<rparr>) loaded"
  let ?after_check = "\<lambda>loaded. bind_run (?check loaded)
               (\<lambda>(error, L). if error \<noteq> 0 then stop_run (Exited 1) else ?dp L loaded)"
  let ?after_load = "\<lambda>(error, loaded).
           if error = 3 \<or> error = 5
           then ([Stderr ErrInconsistentSizes], Inl (Exited 1))
           else ?after_check loaded"
  have es: "es = []"
    using parse_options_accepts [OF p] by simp
  have m: "main env argv = bind_run (load_sequences env opts) ?after_load"
    unfolding main_def p [unfolded es] by (simp add: bind_run_def split: prod.splits)
  obtain es2 r2 where l: "load_sequences env opts = (es2, r2)"
    by (cases "load_sequences env opts")
  have q2: "list_all is_stderr es2"
    using load_sequences_quiet [of env opts] l by simp
  show ?thesis
  proof (cases r2)
    case (Inl s)
    then have "main env argv = (es2, Inl s)" and "s \<noteq> Exited 0"
      using l load_sequences_stop [of env opts s] by (simp_all add: m bind_run_Inl)
    with q2 show ?thesis by simp
  next
    case (Inr x)
    obtain err loaded where x: "x = (err, loaded)"
      by (cases x)
    have es2: "es2 = []"
      using load_sequences_Inr l Inr by blast
    have m2: "main env argv = ?after_load (err, loaded)"
      using l Inr x es2 by (simp add: m bind_run_def split: prod.splits)
    show ?thesis
    proof (cases "err = 3 \<or> err = 5")
      case True
      then have "main env argv = ([Stderr ErrInconsistentSizes], Inl (Exited 1))"
        using m2 by auto
      then show ?thesis by simp
    next
      case False
      then have m3: "main env argv = ?after_check loaded"
        using m2 by simp
      obtain w r3 where c: "?check loaded = (w, r3)"
        by (cases "?check loaded")
      have qw: "list_all is_stderr w"
        using check_sequences_quiet [of loaded "index_a opts" "index_b opts"
            "nr_window_widths opts" "window_basewidth opts" "apply_tau opts"] c by simp
      show ?thesis
      proof (cases r3)
        case (Inl s)
        then have "main env argv = (w, Inl s)" and "s \<noteq> Exited 0"
          using c check_sequences_stop [of loaded "index_a opts" "index_b opts"
            "nr_window_widths opts" "window_basewidth opts" "apply_tau opts" s]
          by (simp_all add: m3 bind_run_Inl)
        with qw show ?thesis by simp
      next
        case (Inr y)
        obtain err3 L' where y: "y = (err3, L')"
          by (cases y)
        show ?thesis
        proof (cases "err3 = 0")
          case False
          then have "main env argv = (w, Inl (Exited 1))"
            using c Inr y by (simp add: m3 bind_run_Inr stop_run_def)
          with qw show ?thesis by simp
        next
          case True
          then have "main env argv = (w @ fst (?dp L' loaded), snd (?dp L' loaded))"
            using c Inr y by (simp add: m3 bind_run_Inr)
          moreover have "load_sequences env opts = ([], Inr (err, loaded))"
            using l \<open>r2 = Inr x\<close> x es2 by simp
          moreover have "?check loaded = (w, Inr (0, L'))"
            using c Inr y True by simp
          ultimately show ?thesis
            using False by blast
        qed
      qed
    qed
  qed
qed

lemma main_rejected:
  assumes "\<And>es opts. netOnZeroDXC_xc_parse_options argv initial_options \<noteq> (es, Inr (0, opts))"
  shows "list_all is_stderr (fst (main env argv))"
proof -
  obtain es r where p: "netOnZeroDXC_xc_parse_options argv initial_options = (es, r)"
    by (cases "netOnZeroDXC_xc_parse_options argv initial_options")
  have q: "list_all is_stderr es"
    using parse_options_quiet [of argv initial_options] p by simp
  show ?thesis
  proof (cases r)
    case (Inl s)
    then show ?thesis using p q by (simp add: main_def bind_run_Inl)
  next
    case (Inr x)
    obtain err opts where x: "x = (err, opts)" by (cases x)
    have "err \<noteq> 0" using assms p Inr x by auto
    then show ?thesis
      using p q Inr x by (simp add: main_def bind_run_Inr stop_run_def)
  qed
qed

lemma basewidths_append: "basewidths (xs @ ys) = basewidths xs @ basewidths ys"
  by (simp add: basewidths_def List.map_filter_def)

lemma quiet_basewidths: "list_all is_stderr es \<Longrightarrow> basewidths es = []"
proof (induction es)
  case Nil
  show ?case by (simp add: basewidths_def List.map_filter_def)
next
  case (Cons e es)
  then show ?case by (cases e) (simp_all add: basewidths_def List.map_filter_def)
qed

lemma basewidth_is_set: "list_all (basewidth_is L) es \<Longrightarrow> \<forall>x \<in> set (basewidths es). x = L"
  by (induction es) (auto simp: basewidths_def List.map_filter_def basewidth_is_def)

lemma output_no_surrogate:
  "list_all is_output es \<Longrightarrow> filter is_surrogate_event es = [] \<and> filter is_cdiagram es = []"
proof (induction es)
  case Nil
  show ?case by simp
next
  case (Cons e es)
  then show ?case by (cases e) simp_all
qed

lemma stderr_no_surrogate:
  "list_all is_stderr es \<Longrightarrow> filter is_surrogate_event es = [] \<and> filter is_cdiagram es = []"
proof (induction es)
  case Nil
  show ?case by simp
next
  case (Cons e es)
  then show ?case by (cases e) simp_all
qed

lemma diagram_phase_corr_only:
  assumes pc: "print_corr_diagram opts" and W: "0 < nr_window_widths opts"
  shows "filter is_surrogate_event (fst (diagram_phase env opts loaded)) = [] \<and>
         length (filter is_cdiagram (fst (diagram_phase env opts loaded))) \<le> 1 \<and>
         (\<exists>s. snd (diagram_phase env opts loaded) = Inl s) \<and>
         (snd (diagram_phase env opts loaded) = Inl (Exited 0) \<longrightarrow>
            (\<exists>c out. fst (diagram_phase env opts loaded) = c # out \<and> is_cdiagram c \<and>
               out \<noteq> [] \<and> list_all is_output out))"
proof -
  obtain r where b: "build_dummy_vector loaded opts = ([], r)"
    using build_dummy_vector_silent [of loaded opts]
    by (cases "build_dummy_vector loaded opts") simp
  show ?thesis
  proof (cases r)
    case (Inl s)
    then have "diagram_phase env opts loaded = ([], Inl s)" and "s \<noteq> Exited 0"
      using b build_dummy_vector_stop [of loaded opts s 0]
      by (simp_all add: diagram_phase_def bind_run_Inl)
    then show ?thesis by simp
  next
    case (Inr dummy)
    define corr where "corr = netOnZeroDXC_compute_cdiagram env
        (replicate (to_size_t (nr_window_widths opts)) dummy) loaded (index_a opts) (index_b opts)
        (window_basewidth opts) (nr_window_widths opts) (0 < apply_tau opts) (apply_tau opts)"
    define c where "c = ComputeCDiagram loaded (index_a opts) (index_b opts)
        (window_basewidth opts) (nr_window_widths opts) (0 < apply_tau opts) (apply_tau opts)"
    define fin :: "int run" where "fin = bind_run (output_diagram env opts corr) (\<lambda>error.
              if error \<noteq> 0
              then ([Stderr (ErrWriting (selected_output_filename opts))], Inl (Exited 1))
              else stop_run (Exited 0))"
    have dp: "diagram_phase env opts loaded = (c # fst fin, snd fin)"
      using b Inr pc
      by (simp add: diagram_phase_def bind_run_Inr Let_def emit_def corr_def c_def fin_def)
    obtain oes ores where o: "output_diagram env opts corr = (oes, ores)"
      by (cases "output_diagram env opts corr")
    have oes: "list_all is_output oes"
      using output_diagram_events [of env opts corr] o by simp
    have ores: "ores = Inl (Faulted OutOfRange) \<or> (\<exists>error. ores = Inr error \<and> oes \<noteq> [])"
      using output_diagram_result [of env opts corr] o W by auto
    have fin: "(fin = (oes, Inl (Faulted OutOfRange))) \<or>
               (fin = (oes @ [Stderr (ErrWriting (selected_output_filename opts))], Inl (Exited 1))) \<or>
               (fin = (oes, Inl (Exited 0)) \<and> oes \<noteq> [])"
      using ores
    proof (elim disjE exE conjE)
      assume "ores = Inl (Faulted OutOfRange)"
      then show ?thesis using o by (simp add: fin_def bind_run_def)
    next
      fix error
      assume "ores = Inr error" and "oes \<noteq> []"
      then show ?thesis
        using o by (cases "error = 0") (simp_all add: fin_def bind_run_def stop_run_def)
    qed
    have cd: "is_cdiagram c" "\<not> is_surrogate_event c"
      by (simp_all add: c_def)
    show ?thesis
      using fin output_no_surrogate [OF oes] oes cd by (auto simp: dp)
  qed
qed

lemma main_accepted:
  assumes p: "netOnZeroDXC_xc_parse_options argv initial_options = (es, Inr (0, opts))"
    and l: "load_sequences env opts = ([], Inr (err, loaded))" and err: "err \<noteq> 3" "err \<noteq> 5"
    and c: "netOnZeroDXC_xc_check_sequences loaded (index_a opts) (index_b opts)
              (nr_window_widths opts) (window_basewidth opts) (apply_tau opts) = (w, Inr (0, L'))"
  shows "main env argv =
              (w @ fst (diagram_phase env
                     (opts\<lparr>window_basewidth := L', index_a := index_a opts - 1,
                           index_b := index_b opts - 1\<rparr>) loaded),
               snd (diagram_phase env
                     (opts\<lparr>window_basewidth := L', index_a := index_a opts - 1,
                           index_b := index_b opts - 1\<rparr>) loaded))"
proof -
  have es: "es = []"
    using parse_options_accepts [OF p] by simp
  show ?thesis
    unfolding main_def p [unfolded es]
    using err by (simp add: bind_run_def l c split: prod.splits)
qed

lemma no_trial_filter: "list_all (\<lambda>e. \<not> is_trial_event e) es \<Longrightarrow> filter is_trial_event es = []"
  by (induction es) auto

lemma is_output_no_trial: "is_output e \<Longrightarrow> \<not> is_trial_event e"
  by (cases e) simp_all

lemma is_stderr_no_trial: "is_stderr e \<Longrightarrow> \<not> is_trial_event e"
  by (cases e) simp_all

lemma finish_no_trial:
  "list_all (\<lambda>e. \<not> is_trial_event e)
     (fst (bind_run (output_diagram env opts d) (\<lambda>error.
             if error \<noteq> 0 then ([Stderr (ErrWriting f)], Inl (Exited 1)) else r)))"
  if "fst r = []"
proof (rule list_all_bind_run)
  show "list_all (\<lambda>e. \<not> is_trial_event e) (fst (output_diagram env opts d))"
    by (rule list_all_mono [OF output_diagram_events is_output_no_trial])
  show "list_all (\<lambda>e. \<not> is_trial_event e)
     (fst (if error \<noteq> 0 then ([Stderr (ErrWriting f)], Inl (Exited 1)) else r))" for error
    using that by simp
qed

lemma no_sequential_trials:
  "nr_surrogates opts \<le> 0 \<Longrightarrow> sequential_trials env opts lv 0 st = ([], st)"
  by (subst sequential_trials.simps) simp

lemma no_parallel_trials:
  "nr_surrogates opts \<le> 0 \<Longrightarrow> parallel_trials env opts lv 0 st = ([], Inr st)"
  by (subst parallel_trials.simps) (simp add: return_run_def)

lemma surrogate_phase_no_trial:
  assumes "nr_surrogates opts \<le> 0"
  shows "list_all (\<lambda>e. \<not> is_trial_event e) (fst (surrogate_phase env opts loaded dummy corr p0))"
proof -
  let ?P = "list_all (\<lambda>e. \<not> is_trial_event e)"
  obtain vd_a fft_a where a:
    "netOnZeroDXC_initialize_surrogate_generation env loaded (index_a opts) = (vd_a, fft_a)"
    by (cases "netOnZeroDXC_initialize_surrogate_generation env loaded (index_a opts)")
  obtain vd_b fft_b where b:
    "netOnZeroDXC_initialize_surrogate_generation env loaded (index_b opts) = (vd_b, fft_b)"
    by (cases "netOnZeroDXC_initialize_surrogate_generation env loaded (index_b opts)")
  have trials: "?P (fst (if enable_parallel_computing opts then parallel_trials env opts lv 0 st0
              else (case sequential_trials env opts lv 0 st0 of (es, st) \<Rightarrow> (es, Inr st))))"
    for lv st0
    by (simp add: no_sequential_trials [OF assms] no_parallel_trials [OF assms])
  have fin: "?P (fst (bind_run (output_diagram env opts d) (\<lambda>error.
             if error \<noteq> 0
             then ([Stderr (ErrWriting (selected_output_filename opts))], Inl (Exited 1))
             else return_run 0)))" for d
    by (rule finish_no_trial) (simp add: return_run_def)
  show ?thesis
    unfolding surrogate_phase_def a b prod.case Let_def
    by (intro list_all_bind_run trials fin) (simp add: emit_def)
qed

lemma diagram_phase_no_trial:
  assumes "nr_surrogates opts \<le> 0"
  shows "list_all (\<lambda>e. \<not> is_trial_event e) (fst (diagram_phase env opts loaded))"
proof -
  let ?P = "list_all (\<lambda>e. \<not> is_trial_event e)"
  have fin: "?P (fst (bind_run (output_diagram env opts d) (\<lambda>error.
             if error \<noteq> 0
             then ([Stderr (ErrWriting (selected_output_filename opts))], Inl (Exited 1))
             else stop_run (Exited 0))))" for d
    by (rule finish_no_trial) (simp add: stop_run_def)
  have rest: "?P (fst (if print_corr_diagram opts then
            bind_run (output_diagram env opts d) (\<lambda>error.
              if error \<noteq> 0
              then ([Stderr (ErrWriting (selected_output_filename opts))], Inl (Exited 1))
              else stop_run (Exited 0))
          else surrogate_phase env opts loaded dummy corr p0))" for d dummy corr p0
  proof (cases "print_corr_diagram opts")
    case True
    show ?thesis unfolding if_P [OF True] by (rule fin)
  next
    case False
    show ?thesis unfolding if_not_P [OF False] by (rule surrogate_phase_no_trial [OF assms])
  qed
  show ?thesis
    unfolding diagram_phase_def Let_def
  proof (intro list_all_bind_run rest)
    show "?P (fst (build_dummy_vector loaded opts))"
      by (simp add: build_dummy_vector_silent)
    show "?P (fst (emit [ComputeCDiagram loaded (index_a opts) (index_b opts)
        (window_basewidth opts) (nr_window_widths opts) (0 < apply_tau opts) (apply_tau opts)]))"
      by (simp add: emit_def)
  qed
qed

lemma diagram_phase_reaches_core:
  assumes "build_dummy_vector loaded opts = ([], Inr dummy)"
  shows "\<exists>rest. fst (diagram_phase env opts loaded) =
           ComputeCDiagram loaded (index_a opts) (index_b opts) (window_basewidth opts)
             (nr_window_widths opts) (0 < apply_tau opts) (apply_tau opts) # rest"
  using assms by (simp add: diagram_phase_def bind_run_Inr Let_def emit_def)

section \<open>The base width that reaches the computation\<close>

text \<open>
  Claim C5. In every run, every call of \<^verbatim>\<open>netOnZeroDXC_compute_cdiagram\<close> receives an even
  base width. When option parsing accepts an odd \<^verbatim>\<open>L\<close>, every such call receives
  \<^verbatim>\<open>L - 1\<close>, and a run that reaches such a call has first written the warning that the
  width is reduced to \<^verbatim>\<open>L - 1\<close>: \<^verbatim>\<open>L = 11\<close> becomes 10.
\<close>

theorem odd_basewidth_is_decremented:
  "(\<forall>L \<in> set (basewidths (fst (main env argv))). even L) \<and>
   (\<forall>es opts.
      netOnZeroDXC_xc_parse_options argv initial_options = (es, Inr (0, opts)) \<and>
      odd (window_basewidth opts) \<longrightarrow>
        (\<forall>L \<in> set (basewidths (fst (main env argv))). L = window_basewidth opts - 1) \<and>
        (basewidths (fst (main env argv)) \<noteq> [] \<longrightarrow>
           (\<exists>post. fst (main env argv) =
              Stderr (WarnOddBaseWidth (window_basewidth opts - 1)) # post)))"
proof -
  have accepted:
    "(\<forall>L \<in> set (basewidths (fst (main env argv))).
        even L \<and> L = (if odd (window_basewidth opts) then window_basewidth opts - 1
                      else window_basewidth opts)) \<and>
     (odd (window_basewidth opts) \<and> basewidths (fst (main env argv)) \<noteq> [] \<longrightarrow>
        (\<exists>post. fst (main env argv) =
           Stderr (WarnOddBaseWidth (window_basewidth opts - 1)) # post))"
    if p: "netOnZeroDXC_xc_parse_options argv initial_options = (es, Inr (0, opts))"
    for es opts
    using main_after_parse [OF p, of env]
  proof (elim disjE conjE exE)
    assume "list_all is_stderr (fst (main env argv))"
    then show ?thesis by (simp add: quiet_basewidths)
  next
    fix err loaded w L'
    let ?opts = "opts\<lparr>window_basewidth := L', index_a := index_a opts - 1,
                       index_b := index_b opts - 1\<rparr>"
    assume c: "netOnZeroDXC_xc_check_sequences loaded (index_a opts) (index_b opts)
              (nr_window_widths opts) (window_basewidth opts) (apply_tau opts) = (w, Inr (0, L'))"
      and m: "main env argv = (w @ fst (diagram_phase env ?opts loaded),
                               snd (diagram_phase env ?opts loaded))"
    from check_sequences_accepts [OF c]
    have L': "even L'" "L' = (if odd (window_basewidth opts) then window_basewidth opts - 1
                              else window_basewidth opts)"
      and w: "w = (if odd (window_basewidth opts)
                   then [Stderr (WarnOddBaseWidth (window_basewidth opts - 1))] else [])"
      by simp_all
    have "basewidths w = []"
      by (simp add: w basewidths_def List.map_filter_def)
    moreover have "\<forall>x \<in> set (basewidths (fst (diagram_phase env ?opts loaded))). x = L'"
      using diagram_phase_basewidth [of ?opts env loaded] by (intro basewidth_is_set) simp
    ultimately have "\<forall>x \<in> set (basewidths (fst (main env argv))). x = L'"
      by (simp add: m basewidths_append)
    moreover have "odd (window_basewidth opts) \<longrightarrow>
        (\<exists>post. fst (main env argv) =
           Stderr (WarnOddBaseWidth (window_basewidth opts - 1)) # post)"
      by (simp add: m w)
    ultimately show ?thesis
      using L' by auto
  qed
  have rejected: "basewidths (fst (main env argv)) = []"
    if "\<And>es opts. netOnZeroDXC_xc_parse_options argv initial_options \<noteq> (es, Inr (0, opts))"
    using main_rejected [OF that, of env] by (rule quiet_basewidths)
  have "\<forall>L \<in> set (basewidths (fst (main env argv))). even L"
  proof (cases "\<exists>es opts. netOnZeroDXC_xc_parse_options argv initial_options = (es, Inr (0, opts))")
    case True
    then obtain es opts where
      "netOnZeroDXC_xc_parse_options argv initial_options = (es, Inr (0, opts))"
      by blast
    from accepted [OF this] show ?thesis by blast
  next
    case False
    then have "basewidths (fst (main env argv)) = []"
      by (intro rejected) blast
    then show ?thesis by simp
  qed
  moreover have "(\<forall>L \<in> set (basewidths (fst (main env argv))). L = window_basewidth opts - 1) \<and>
        (basewidths (fst (main env argv)) \<noteq> [] \<longrightarrow>
           (\<exists>post. fst (main env argv) =
              Stderr (WarnOddBaseWidth (window_basewidth opts - 1)) # post))"
    if "netOnZeroDXC_xc_parse_options argv initial_options = (es, Inr (0, opts))"
      and "odd (window_basewidth opts)" for es opts
    using accepted [OF that(1)] that(2) by simp
  ultimately show ?thesis by blast
qed

theorem odd_basewidth_is_decremented_witness:
  "netOnZeroDXC_xc_parse_options
     [''prog'', ''-n'', ''1'', ''2'', ''-W'', ''1'', ''-L'', ''11'', ''-C''] initial_options =
     ([], Inr (0, initial_options\<lparr>print_corr_diagram := True, index_a := 1, index_b := 2,
         nr_window_widths := 1, window_basewidth := 11, separator_char := CHR 0x09\<rparr>)) \<and>
   fst (main (sample_env (replicate 40 [1, 2]))
     [''prog'', ''-n'', ''1'', ''2'', ''-W'', ''1'', ''-L'', ''11'', ''-C'']) =
     [Stderr (WarnOddBaseWidth 10),
      ComputeCDiagram [replicate 40 1, replicate 40 2] 0 1 10 1 False (- 1),
      StdoutRow [0, 0, 0, 0] (CHR 0x09)] \<and>
   list_all (\<lambda>L. L = 11 - 1 \<and> even L)
     (basewidths (fst (main (sample_env (replicate 40 [1, 2]))
        [''prog'', ''-n'', ''1'', ''2'', ''-W'', ''1'', ''-L'', ''11'', ''-C''])))"
proof -
  let ?argv = "[''prog'', ''-n'', ''1'', ''2'', ''-W'', ''1'', ''-L'', ''11'', ''-C'']"
  let ?env = "sample_env (replicate 40 [1, 2])"
  let ?opts = "initial_options\<lparr>print_corr_diagram := True, index_a := 1, index_b := 2,
         nr_window_widths := 1, window_basewidth := 11, separator_char := CHR 0x09\<rparr>"
  have p: "netOnZeroDXC_xc_parse_options ?argv initial_options = ([], Inr (0, ?opts))"
    by code_simp
  have m: "fst (main ?env ?argv) =
     [Stderr (WarnOddBaseWidth 10),
      ComputeCDiagram [replicate 40 1, replicate 40 2] 0 1 10 1 False (- 1),
      StdoutRow [0, 0, 0, 0] (CHR 0x09)]"
    by code_simp
  have odd: "odd (window_basewidth ?opts)" and L: "window_basewidth ?opts = 11"
    by simp_all
  have "\<forall>L \<in> set (basewidths (fst (main ?env ?argv))). even L"
    and "\<forall>L \<in> set (basewidths (fst (main ?env ?argv))). L = window_basewidth ?opts - 1"
    using odd_basewidth_is_decremented [of ?env ?argv] p odd by blast+
  then have "list_all (\<lambda>L. L = 11 - 1 \<and> even L) (basewidths (fst (main ?env ?argv)))"
    unfolding L list_all_iff by blast
  with p m show ?thesis by blast
qed

section \<open>The correlation diagram alone\<close>

lemma print_rows_exact:
  "n \<le> length d \<Longrightarrow> list_all (\<lambda>row. row \<noteq> []) (take n d) \<Longrightarrow>
   print_rows d n sep = (map (\<lambda>row. StdoutRow row sep) (take n d), Inr ())"
proof (induction n arbitrary: d)
  case 0
  show ?case by (simp add: return_run_def)
next
  case (Suc n)
  then obtain row rest where d: "d = row # rest"
    by (cases d) simp_all
  have "print_rows rest n sep = (map (\<lambda>row. StdoutRow row sep) (take n rest), Inr ())"
    using Suc.prems by (intro Suc.IH) (simp_all add: d)
  then show ?case
    using Suc.prems by (simp add: d emit_def bind_run_def)
qed

lemma diagram_phase_corr_exact:
  assumes pc: "print_corr_diagram opts"
    and b: "build_dummy_vector loaded opts = ([], Inr dummy)"
  shows "let corr = netOnZeroDXC_compute_cdiagram env
                 (replicate (to_size_t (nr_window_widths opts)) dummy) loaded
                 (index_a opts) (index_b opts) (window_basewidth opts) (nr_window_widths opts)
                 (0 < apply_tau opts) (apply_tau opts);
             c = ComputeCDiagram loaded (index_a opts) (index_b opts) (window_basewidth opts)
                   (nr_window_widths opts) (0 < apply_tau opts) (apply_tau opts);
             error = netOnZeroDXC_save_single_file env corr (selected_output_filename opts)
                       (separator_char opts)
         in (write_to_file opts \<longrightarrow>
               diagram_phase env opts loaded =
                 ([c, SaveFile corr (selected_output_filename opts) (separator_char opts)] @
                  (if error = 0 then [] else [Stderr (ErrWriting (selected_output_filename opts))]),
                  Inl (Exited (if error = 0 then 0 else 1)))) \<and>
            (\<not> write_to_file opts \<and> nat (nr_window_widths opts) \<le> length corr \<and>
             list_all (\<lambda>row. row \<noteq> []) (take (nat (nr_window_widths opts)) corr) \<longrightarrow>
               diagram_phase env opts loaded =
                 (c # map (\<lambda>row. StdoutRow row (separator_char opts))
                        (take (nat (nr_window_widths opts)) corr),
                  Inl (Exited 0)))"
  using pc b
  by (auto simp: diagram_phase_def Let_def bind_run_def emit_def output_diagram_def
      print_rows_exact return_run_def stop_run_def)

text \<open>
  Claim C10. When option parsing leaves \<^verbatim>\<open>print_corr_diagram\<close> set, the run initializes
  no surrogate context, generates no surrogate sequence and never calls the aggregator;
  it calls \<^verbatim>\<open>netOnZeroDXC_compute_cdiagram\<close> at most once and always ends in \<^verbatim>\<open>exit\<close> or
  a fault, never by the \<^verbatim>\<open>return\<close> after the p-value diagram. A run that ends with
  status 0 is, after possible warnings, the one computation of the diagram followed by
  its output and nothing else. When the sequences load, pass the sequence check and
  the rows are allocated, the run is the warnings of the check, the one call of
  \<^verbatim>\<open>netOnZeroDXC_compute_cdiagram\<close> on the loaded sequences and the output of the diagram
  that this call returned: written to the file, with status 0 when the write reports
  no error and status 1 after an error message otherwise; or printed row by row, the
  first \<^verbatim>\<open>W\<close> rows being there and not empty, with status 0.
\<close>

theorem correlation_only_run_stops_after_output:
  assumes p: "netOnZeroDXC_xc_parse_options argv initial_options = (es, Inr (0, opts))"
    and pc: "print_corr_diagram opts"
  shows "filter is_surrogate_event (fst (main env argv)) = [] \<and>
         length (filter is_cdiagram (fst (main env argv))) \<le> 1 \<and>
         (\<exists>s. snd (main env argv) = Inl s) \<and>
         (exit_status (main env argv) = Some 0 \<longrightarrow>
            (\<exists>w c out. fst (main env argv) = w @ c # out \<and> list_all is_stderr w \<and>
               is_cdiagram c \<and> out \<noteq> [] \<and> list_all is_output out)) \<and>
         (\<forall>err loaded w L' dummy.
            load_sequences env opts = ([], Inr (err, loaded)) \<and> err \<noteq> 3 \<and> err \<noteq> 5 \<and>
            netOnZeroDXC_xc_check_sequences loaded (index_a opts) (index_b opts)
              (nr_window_widths opts) (window_basewidth opts) (apply_tau opts) = (w, Inr (0, L')) \<and>
            build_dummy_vector loaded
              (opts\<lparr>window_basewidth := L', index_a := index_a opts - 1,
                    index_b := index_b opts - 1\<rparr>) = ([], Inr dummy) \<longrightarrow>
            (let corr = netOnZeroDXC_compute_cdiagram env
                          (replicate (to_size_t (nr_window_widths opts)) dummy) loaded
                          (index_a opts - 1) (index_b opts - 1) L' (nr_window_widths opts)
                          (0 < apply_tau opts) (apply_tau opts);
                 c = ComputeCDiagram loaded (index_a opts - 1) (index_b opts - 1) L'
                       (nr_window_widths opts) (0 < apply_tau opts) (apply_tau opts);
                 error = netOnZeroDXC_save_single_file env corr (selected_output_filename opts)
                           (separator_char opts)
             in (write_to_file opts \<longrightarrow>
                   main env argv =
                     (w @ [c, SaveFile corr (selected_output_filename opts) (separator_char opts)] @
                      (if error = 0 then []
                       else [Stderr (ErrWriting (selected_output_filename opts))]),
                      Inl (Exited (if error = 0 then 0 else 1)))) \<and>
                (\<not> write_to_file opts \<and> nat (nr_window_widths opts) \<le> length corr \<and>
                 list_all (\<lambda>row. row \<noteq> []) (take (nat (nr_window_widths opts)) corr) \<longrightarrow>
                   main env argv =
                     (w @ c # map (\<lambda>row. StdoutRow row (separator_char opts))
                                (take (nat (nr_window_widths opts)) corr),
                      Inl (Exited 0)))))"
proof -
  have log: "filter is_surrogate_event (fst (main env argv)) = [] \<and>
         length (filter is_cdiagram (fst (main env argv))) \<le> 1 \<and>
         (\<exists>s. snd (main env argv) = Inl s) \<and>
         (exit_status (main env argv) = Some 0 \<longrightarrow>
            (\<exists>w c out. fst (main env argv) = w @ c # out \<and> list_all is_stderr w \<and>
               is_cdiagram c \<and> out \<noteq> [] \<and> list_all is_output out))"
    using main_after_parse [OF p, of env]
  proof (elim disjE conjE exE)
    fix s
    assume "list_all is_stderr (fst (main env argv))" and "snd (main env argv) = Inl s"
      and "s \<noteq> Exited 0"
    then show ?thesis
      using stderr_no_surrogate [of "fst (main env argv)"]
      by (cases s) (simp_all add: exit_status_def)
  next
    fix err loaded w L'
    let ?opts = "opts\<lparr>window_basewidth := L', index_a := index_a opts - 1,
                       index_b := index_b opts - 1\<rparr>"
    assume c: "netOnZeroDXC_xc_check_sequences loaded (index_a opts) (index_b opts)
                (nr_window_widths opts) (window_basewidth opts) (apply_tau opts) = (w, Inr (0, L'))"
      and m: "main env argv = (w @ fst (diagram_phase env ?opts loaded),
                               snd (diagram_phase env ?opts loaded))"
    have w: "list_all is_stderr w"
      using check_sequences_quiet [of loaded "index_a opts" "index_b opts"
              "nr_window_widths opts" "window_basewidth opts" "apply_tau opts"] c by simp
    have "print_corr_diagram ?opts" and "0 < nr_window_widths ?opts"
      using pc parse_options_accepts [OF p] by simp_all
    from diagram_phase_corr_only [OF this, of env loaded]
    have A: "filter is_surrogate_event (fst (diagram_phase env ?opts loaded)) = []"
      and B: "length (filter is_cdiagram (fst (diagram_phase env ?opts loaded))) \<le> 1"
      and C: "\<exists>s. snd (diagram_phase env ?opts loaded) = Inl s"
      and D: "snd (diagram_phase env ?opts loaded) = Inl (Exited 0) \<longrightarrow>
              (\<exists>c out. fst (diagram_phase env ?opts loaded) = c # out \<and> is_cdiagram c \<and>
                 out \<noteq> [] \<and> list_all is_output out)"
      by blast+
    show ?thesis
    proof (intro conjI impI)
      show "filter is_surrogate_event (fst (main env argv)) = []"
        using A stderr_no_surrogate [OF w] by (simp add: m)
      show "length (filter is_cdiagram (fst (main env argv))) \<le> 1"
        using B stderr_no_surrogate [OF w] by (simp add: m)
      show "\<exists>s. snd (main env argv) = Inl s"
        using C by (simp add: m)
      assume "exit_status (main env argv) = Some 0"
      then have "snd (diagram_phase env ?opts loaded) = Inl (Exited 0)"
        using C by (auto simp: m exit_status_def split: stop.splits)
      with D obtain c out where "fst (diagram_phase env ?opts loaded) = c # out"
        and "is_cdiagram c" and "out \<noteq> []" and "list_all is_output out"
        by blast
      then have "fst (main env argv) = w @ c # out \<and> list_all is_stderr w \<and>
                 is_cdiagram c \<and> out \<noteq> [] \<and> list_all is_output out"
        using w by (simp add: m)
      then show "\<exists>w c out. fst (main env argv) = w @ c # out \<and> list_all is_stderr w \<and>
                 is_cdiagram c \<and> out \<noteq> [] \<and> list_all is_output out"
        by blast
    qed
  qed
  have written: "(\<forall>err loaded w L' dummy.
            load_sequences env opts = ([], Inr (err, loaded)) \<and> err \<noteq> 3 \<and> err \<noteq> 5 \<and>
            netOnZeroDXC_xc_check_sequences loaded (index_a opts) (index_b opts)
              (nr_window_widths opts) (window_basewidth opts) (apply_tau opts) = (w, Inr (0, L')) \<and>
            build_dummy_vector loaded
              (opts\<lparr>window_basewidth := L', index_a := index_a opts - 1,
                    index_b := index_b opts - 1\<rparr>) = ([], Inr dummy) \<longrightarrow>
            (let corr = netOnZeroDXC_compute_cdiagram env
                          (replicate (to_size_t (nr_window_widths opts)) dummy) loaded
                          (index_a opts - 1) (index_b opts - 1) L' (nr_window_widths opts)
                          (0 < apply_tau opts) (apply_tau opts);
                 c = ComputeCDiagram loaded (index_a opts - 1) (index_b opts - 1) L'
                       (nr_window_widths opts) (0 < apply_tau opts) (apply_tau opts);
                 error = netOnZeroDXC_save_single_file env corr (selected_output_filename opts)
                           (separator_char opts)
             in (write_to_file opts \<longrightarrow>
                   main env argv =
                     (w @ [c, SaveFile corr (selected_output_filename opts) (separator_char opts)] @
                      (if error = 0 then []
                       else [Stderr (ErrWriting (selected_output_filename opts))]),
                      Inl (Exited (if error = 0 then 0 else 1)))) \<and>
                (\<not> write_to_file opts \<and> nat (nr_window_widths opts) \<le> length corr \<and>
                 list_all (\<lambda>row. row \<noteq> []) (take (nat (nr_window_widths opts)) corr) \<longrightarrow>
                   main env argv =
                     (w @ c # map (\<lambda>row. StdoutRow row (separator_char opts))
                                (take (nat (nr_window_widths opts)) corr),
                      Inl (Exited 0)))))"
  proof (intro allI impI)
    fix err loaded w L' dummy
    let ?opts = "opts\<lparr>window_basewidth := L', index_a := index_a opts - 1,
                       index_b := index_b opts - 1\<rparr>"
    assume h: "load_sequences env opts = ([], Inr (err, loaded)) \<and> err \<noteq> 3 \<and> err \<noteq> 5 \<and>
            netOnZeroDXC_xc_check_sequences loaded (index_a opts) (index_b opts)
              (nr_window_widths opts) (window_basewidth opts) (apply_tau opts) = (w, Inr (0, L')) \<and>
            build_dummy_vector loaded ?opts = ([], Inr dummy)"
    then have l: "load_sequences env opts = ([], Inr (err, loaded))"
      and e: "err \<noteq> 3" "err \<noteq> 5"
      and c: "netOnZeroDXC_xc_check_sequences loaded (index_a opts) (index_b opts)
           (nr_window_widths opts) (window_basewidth opts) (apply_tau opts) = (w, Inr (0, L'))"
      and b: "build_dummy_vector loaded ?opts = ([], Inr dummy)"
      by simp_all
    have m: "main env argv = (w @ fst (diagram_phase env ?opts loaded),
                              snd (diagram_phase env ?opts loaded))"
      by (rule main_accepted [OF p l e c])
    have pc': "print_corr_diagram ?opts"
      using pc by simp
    show "let corr = netOnZeroDXC_compute_cdiagram env
                          (replicate (to_size_t (nr_window_widths opts)) dummy) loaded
                          (index_a opts - 1) (index_b opts - 1) L' (nr_window_widths opts)
                          (0 < apply_tau opts) (apply_tau opts);
                 c = ComputeCDiagram loaded (index_a opts - 1) (index_b opts - 1) L'
                       (nr_window_widths opts) (0 < apply_tau opts) (apply_tau opts);
                 error = netOnZeroDXC_save_single_file env corr (selected_output_filename opts)
                           (separator_char opts)
             in (write_to_file opts \<longrightarrow>
                   main env argv =
                     (w @ [c, SaveFile corr (selected_output_filename opts) (separator_char opts)] @
                      (if error = 0 then []
                       else [Stderr (ErrWriting (selected_output_filename opts))]),
                      Inl (Exited (if error = 0 then 0 else 1)))) \<and>
                (\<not> write_to_file opts \<and> nat (nr_window_widths opts) \<le> length corr \<and>
                 list_all (\<lambda>row. row \<noteq> []) (take (nat (nr_window_widths opts)) corr) \<longrightarrow>
                   main env argv =
                     (w @ c # map (\<lambda>row. StdoutRow row (separator_char opts))
                                (take (nat (nr_window_widths opts)) corr),
                      Inl (Exited 0)))"
      using diagram_phase_corr_exact [OF pc' b, of env]
      by (simp add: Let_def m)
  qed
  from log written show ?thesis
    by blast
qed

theorem correlation_only_run_stops_after_output_witness:
  "netOnZeroDXC_xc_parse_options
     [''prog'', ''-n'', ''1'', ''2'', ''-W'', ''1'', ''-L'', ''2'', ''-C''] initial_options =
     ([], Inr (0, initial_options\<lparr>print_corr_diagram := True, index_a := 1, index_b := 2,
         nr_window_widths := 1, window_basewidth := 2, separator_char := CHR 0x09\<rparr>)) \<and>
   main ((sample_env (replicate 8 [1, 2]))
           \<lparr>netOnZeroDXC_compute_cdiagram := (\<lambda>d s a b L W dl tau. map (map (\<lambda>x. 1 / 2)) d)\<rparr>)
     [''prog'', ''-n'', ''1'', ''2'', ''-W'', ''1'', ''-L'', ''2'', ''-C''] =
     ([ComputeCDiagram [replicate 8 1, replicate 8 2] 0 1 2 1 False (- 1),
       StdoutRow [1 / 2, 1 / 2, 1 / 2, 1 / 2] (CHR 0x09)], Inl (Exited 0)) \<and>
   filter is_surrogate_event
     (fst (main ((sample_env (replicate 8 [1, 2]))
           \<lparr>netOnZeroDXC_compute_cdiagram := (\<lambda>d s a b L W dl tau. map (map (\<lambda>x. 1 / 2)) d)\<rparr>)
     [''prog'', ''-n'', ''1'', ''2'', ''-W'', ''1'', ''-L'', ''2'', ''-C''])) = []"
proof -
  let ?argv = "[''prog'', ''-n'', ''1'', ''2'', ''-W'', ''1'', ''-L'', ''2'', ''-C'']"
  let ?env = "(sample_env (replicate 8 [1, 2]))
           \<lparr>netOnZeroDXC_compute_cdiagram := (\<lambda>d s a b L W dl tau. map (map (\<lambda>x. 1 / 2)) d)\<rparr>"
  let ?opts = "initial_options\<lparr>print_corr_diagram := True, index_a := 1, index_b := 2,
         nr_window_widths := 1, window_basewidth := 2, separator_char := CHR 0x09\<rparr>"
  let ?loaded = "[replicate 8 1, replicate 8 (2::real)]"
  let ?corr = "netOnZeroDXC_compute_cdiagram ?env
                 (replicate (to_size_t (nr_window_widths ?opts)) [0, 0, 0, 0]) ?loaded
                 (index_a ?opts - 1) (index_b ?opts - 1) 2 (nr_window_widths ?opts)
                 (0 < apply_tau ?opts) (apply_tau ?opts)"
  have p: "netOnZeroDXC_xc_parse_options ?argv initial_options = ([], Inr (0, ?opts))"
    by code_simp
  have pc: "print_corr_diagram ?opts"
    by simp
  have l: "load_sequences ?env ?opts = ([], Inr (0, ?loaded))"
    by code_simp
  have c: "netOnZeroDXC_xc_check_sequences ?loaded (index_a ?opts) (index_b ?opts)
              (nr_window_widths ?opts) (window_basewidth ?opts) (apply_tau ?opts) = ([], Inr (0, 2))"
    by code_simp
  have b: "build_dummy_vector ?loaded
              (?opts\<lparr>window_basewidth := 2, index_a := index_a ?opts - 1,
                    index_b := index_b ?opts - 1\<rparr>) = ([], Inr [0, 0, 0, 0])"
    by code_simp
  have rows: "\<not> write_to_file ?opts \<and> nat (nr_window_widths ?opts) \<le> length ?corr \<and>
      list_all (\<lambda>row. row \<noteq> []) (take (nat (nr_window_widths ?opts)) ?corr)"
    by code_simp
  have out: "[] @ ComputeCDiagram ?loaded (index_a ?opts - 1) (index_b ?opts - 1) 2
                       (nr_window_widths ?opts) (0 < apply_tau ?opts) (apply_tau ?opts) #
                  map (\<lambda>row. StdoutRow row (separator_char ?opts))
                    (take (nat (nr_window_widths ?opts)) ?corr) =
     [ComputeCDiagram [replicate 8 1, replicate 8 2] 0 1 2 1 False (- 1),
       StdoutRow [1 / 2, 1 / 2, 1 / 2, 1 / 2] (CHR 0x09)]"
    by code_simp
  note inst = correlation_only_run_stops_after_output [OF p pc, of ?env]
  have "filter is_surrogate_event (fst (main ?env ?argv)) = []"
    using inst by blast
  moreover have "main ?env ?argv =
     ([] @ ComputeCDiagram ?loaded (index_a ?opts - 1) (index_b ?opts - 1) 2
                       (nr_window_widths ?opts) (0 < apply_tau ?opts) (apply_tau ?opts) #
                  map (\<lambda>row. StdoutRow row (separator_char ?opts))
                    (take (nat (nr_window_widths ?opts)) ?corr), Inl (Exited 0))"
  proof -
    have hyp: "load_sequences ?env ?opts = ([], Inr (0, ?loaded)) \<and> (0::int) \<noteq> 3 \<and>
        (0::int) \<noteq> 5 \<and>
        netOnZeroDXC_xc_check_sequences ?loaded (index_a ?opts) (index_b ?opts)
              (nr_window_widths ?opts) (window_basewidth ?opts) (apply_tau ?opts) = ([], Inr (0, 2)) \<and>
        build_dummy_vector ?loaded
              (?opts\<lparr>window_basewidth := 2, index_a := index_a ?opts - 1,
                    index_b := index_b ?opts - 1\<rparr>) = ([], Inr [0, 0, 0, 0])"
      using l c b by simp
    show ?thesis
      by (rule inst [THEN conjunct2, THEN conjunct2, THEN conjunct2, THEN conjunct2, rule_format,
            of 0 ?loaded "[]" 2 "[0, 0, 0, 0]", unfolded Let_def, THEN conjunct2, rule_format,
            OF hyp rows])
  qed
  ultimately show ?thesis
    using p unfolding out by blast
qed

section \<open>The surrogate count is not validated\<close>

text \<open>
  Claim C4, as the code has it. No check looks at \<^verbatim>\<open>M\<close>. A run whose options are
  accepted with \<^verbatim>\<open>M \<le> 0\<close> runs no trial; when its sequences load, pass the sequence
  check and the rows are allocated, it reaches the core computation: the warnings of the
  check are followed by the call of \<^verbatim>\<open>netOnZeroDXC_compute_cdiagram\<close> on the loaded
  sequences.
\<close>

theorem nonpositive_surrogate_count_is_not_rejected:
  assumes p: "netOnZeroDXC_xc_parse_options argv initial_options = (es, Inr (0, opts))"
    and M: "nr_surrogates opts \<le> 0"
  shows "filter is_trial_event (fst (main env argv)) = [] \<and>
    (\<forall>err loaded w L' dummy.
       load_sequences env opts = ([], Inr (err, loaded)) \<and> err \<noteq> 3 \<and> err \<noteq> 5 \<and>
       netOnZeroDXC_xc_check_sequences loaded (index_a opts) (index_b opts)
         (nr_window_widths opts) (window_basewidth opts) (apply_tau opts) = (w, Inr (0, L')) \<and>
       build_dummy_vector loaded
         (opts\<lparr>window_basewidth := L', index_a := index_a opts - 1,
               index_b := index_b opts - 1\<rparr>) = ([], Inr dummy) \<longrightarrow>
       (\<exists>rest. fst (main env argv) =
          w @ ComputeCDiagram loaded (index_a opts - 1) (index_b opts - 1) L'
                (nr_window_widths opts) (0 < apply_tau opts) (apply_tau opts) # rest))"
proof (intro conjI allI impI)
  show "filter is_trial_event (fst (main env argv)) = []"
    using main_after_parse [OF p, of env]
  proof (elim disjE conjE exE)
    assume "list_all is_stderr (fst (main env argv))"
    then have "list_all (\<lambda>e. \<not> is_trial_event e) (fst (main env argv))"
      by (rule list_all_mono) (rule is_stderr_no_trial)
    then show ?thesis by (rule no_trial_filter)
  next
    fix err loaded w L'
    let ?opts = "opts\<lparr>window_basewidth := L', index_a := index_a opts - 1,
                       index_b := index_b opts - 1\<rparr>"
    assume c: "netOnZeroDXC_xc_check_sequences loaded (index_a opts) (index_b opts)
              (nr_window_widths opts) (window_basewidth opts) (apply_tau opts) = (w, Inr (0, L'))"
      and m: "main env argv = (w @ fst (diagram_phase env ?opts loaded),
                               snd (diagram_phase env ?opts loaded))"
    have "list_all is_stderr w"
      using check_sequences_quiet [of loaded "index_a opts" "index_b opts"
            "nr_window_widths opts" "window_basewidth opts" "apply_tau opts"] c by simp
    then have "list_all (\<lambda>e. \<not> is_trial_event e) w"
      by (rule list_all_mono) (rule is_stderr_no_trial)
    moreover have "list_all (\<lambda>e. \<not> is_trial_event e) (fst (diagram_phase env ?opts loaded))"
      using M by (intro diagram_phase_no_trial) simp
    ultimately have "list_all (\<lambda>e. \<not> is_trial_event e) (fst (main env argv))"
      by (simp add: m)
    then show ?thesis by (rule no_trial_filter)
  qed
next
  fix err loaded w L' dummy
  let ?opts = "opts\<lparr>window_basewidth := L', index_a := index_a opts - 1,
                     index_b := index_b opts - 1\<rparr>"
  assume h: "load_sequences env opts = ([], Inr (err, loaded)) \<and> err \<noteq> 3 \<and> err \<noteq> 5 \<and>
       netOnZeroDXC_xc_check_sequences loaded (index_a opts) (index_b opts)
         (nr_window_widths opts) (window_basewidth opts) (apply_tau opts) = (w, Inr (0, L')) \<and>
       build_dummy_vector loaded ?opts = ([], Inr dummy)"
  then have l: "load_sequences env opts = ([], Inr (err, loaded))"
    and e: "err \<noteq> 3" "err \<noteq> 5"
    and c: "netOnZeroDXC_xc_check_sequences loaded (index_a opts) (index_b opts)
         (nr_window_widths opts) (window_basewidth opts) (apply_tau opts) = (w, Inr (0, L'))"
    by simp_all
  have m: "main env argv = (w @ fst (diagram_phase env ?opts loaded),
                            snd (diagram_phase env ?opts loaded))"
    by (rule main_accepted [OF p l e c])
  from h diagram_phase_reaches_core [of loaded ?opts dummy env]
  obtain rest where "fst (diagram_phase env ?opts loaded) =
      ComputeCDiagram loaded (index_a ?opts) (index_b ?opts) (window_basewidth ?opts)
             (nr_window_widths ?opts) (0 < apply_tau ?opts) (apply_tau ?opts) # rest"
    by blast
  then have "fst (main env argv) =
          w @ ComputeCDiagram loaded (index_a opts - 1) (index_b opts - 1) L'
                (nr_window_widths opts) (0 < apply_tau opts) (apply_tau opts) # rest"
    by (simp add: m)
  then show "\<exists>rest. fst (main env argv) =
          w @ ComputeCDiagram loaded (index_a opts - 1) (index_b opts - 1) L'
                (nr_window_widths opts) (0 < apply_tau opts) (apply_tau opts) # rest"
    by blast
qed

theorem nonpositive_surrogate_count_is_not_rejected_witness:
  "netOnZeroDXC_xc_parse_options
     [''prog'', ''-n'', ''1'', ''2'', ''-W'', ''1'', ''-L'', ''2'', ''-M'', ''0''] initial_options =
     ([], Inr (0, initial_options\<lparr>compute_pvalue_diagram := True, index_a := 1, index_b := 2,
         nr_window_widths := 1, window_basewidth := 2, nr_surrogates := 0,
         separator_char := CHR 0x09\<rparr>)) \<and>
   nr_surrogates (initial_options\<lparr>compute_pvalue_diagram := True, index_a := 1, index_b := 2,
         nr_window_widths := 1, window_basewidth := 2, nr_surrogates := 0,
         separator_char := CHR 0x09\<rparr>) \<le> 0 \<and>
   filter is_trial_event (fst (main (sample_env (replicate 8 [1, 2]))
     [''prog'', ''-n'', ''1'', ''2'', ''-W'', ''1'', ''-L'', ''2'', ''-M'', ''0''])) = [] \<and>
   filter is_cdiagram (fst (main (sample_env (replicate 8 [1, 2]))
     [''prog'', ''-n'', ''1'', ''2'', ''-W'', ''1'', ''-L'', ''2'', ''-M'', ''0''])) =
     [ComputeCDiagram [replicate 8 1, replicate 8 2] 0 1 2 1 False (- 1)]"
proof -
  let ?argv = "[''prog'', ''-n'', ''1'', ''2'', ''-W'', ''1'', ''-L'', ''2'', ''-M'', ''0'']"
  let ?env = "sample_env (replicate 8 [1, 2])"
  let ?opts = "initial_options\<lparr>compute_pvalue_diagram := True, index_a := 1, index_b := 2,
         nr_window_widths := 1, window_basewidth := 2, nr_surrogates := 0,
         separator_char := CHR 0x09\<rparr>"
  have p: "netOnZeroDXC_xc_parse_options ?argv initial_options = ([], Inr (0, ?opts))"
    by code_simp
  have M: "nr_surrogates ?opts \<le> 0"
    by simp
  have c: "filter is_cdiagram (fst (main ?env ?argv)) =
     [ComputeCDiagram [replicate 8 1, replicate 8 2] 0 1 2 1 False (- 1)]"
    by code_simp
  have "filter is_trial_event (fst (main ?env ?argv)) = []"
    using nonpositive_surrogate_count_is_not_rejected [OF p M, of ?env] by blast
  with p M c show ?thesis by blast
qed

text \<open>
  Claim C4, as stated, fails: with \<^verbatim>\<open>-M 0\<close> the options are accepted, the run computes
  the correlation diagram, initializes both surrogate contexts, prints the p-value
  diagram as allocated and returns 0.
\<close>

theorem nonpositive_surrogate_count_counterexample:
  "netOnZeroDXC_xc_parse_options
     [''prog'', ''-n'', ''1'', ''2'', ''-W'', ''1'', ''-L'', ''2'', ''-M'', ''0''] initial_options =
     ([], Inr (0, initial_options\<lparr>compute_pvalue_diagram := True, index_a := 1, index_b := 2,
         nr_window_widths := 1, window_basewidth := 2, nr_surrogates := 0,
         separator_char := CHR 0x09\<rparr>)) \<and>
   main (sample_env (replicate 8 [1, 2]))
     [''prog'', ''-n'', ''1'', ''2'', ''-W'', ''1'', ''-L'', ''2'', ''-M'', ''0''] =
     ([ComputeCDiagram [replicate 8 1, replicate 8 2] 0 1 2 1 False (- 1),
       InitSurrogate 0, InitSurrogate 1, StdoutRow [0, 0, 0, 0] (CHR 0x09)], Inr 0) \<and>
   exit_status (main (sample_env (replicate 8 [1, 2]))
     [''prog'', ''-n'', ''1'', ''2'', ''-W'', ''1'', ''-L'', ''2'', ''-M'', ''0'']) = Some 0"
  by code_simp

section \<open>A negative diagram size is not detected\<close>

text \<open>
  Claim C9, evaluated on the code. For two sequences of length 4 with \<^verbatim>\<open>W = 3\<close> and
  \<^verbatim>\<open>L = 2\<close>, \<open>floor ((4 - 2 * 3) / 2)\<close> is below 1, but the \<^verbatim>\<open>size_t\<close> subtraction in
  \<^verbatim>\<open>netOnZeroDXC_xc_check_sequences\<close> wraps around and the tested quantity is
  \<open>2 ^ 63 - 1\<close>: the check passes, the diagram is computed with empty rows, the table
  is written and the run exits with status 0.
\<close>

theorem wrapped_diagram_size_is_accepted:
  "main (sample_env (replicate 4 [1, 2]))
     [''prog'', ''-n'', ''1'', ''2'', ''-W'', ''3'', ''-L'', ''2'', ''-C'', ''-o'', ''out''] =
     ([ComputeCDiagram [replicate 4 1, replicate 4 2] 0 1 2 3 False (- 1),
       SaveFile [[], [], []] ''out'' (CHR 0x09)], Inl (Exited 0)) \<and>
   (int 4 - 2 * 3) div 2 - (if (- 1 :: int) > 0 then - 1 else 0) < 1 \<and>
   expected_diagram_size 4 2 3 (- 1) = 9223372036854775807"
proof -
  define argv where
    "argv = [''prog'', ''-n'', ''1'', ''2'', ''-W'', ''3'', ''-L'', ''2'', ''-C'', ''-o'', ''out'']"
  define env where "env = sample_env (replicate 4 [1, 2])"
  define opts where
    "opts = initial_options\<lparr>write_to_file := True, print_corr_diagram := True, index_a := 1,
       index_b := 2, nr_window_widths := 3, window_basewidth := 2,
       selected_output_filename := ''out'', separator_char := CHR 0x09\<rparr>"
  define loaded where "loaded = [replicate 4 1, replicate 4 (2::real)]"
  have p: "netOnZeroDXC_xc_parse_options argv initial_options = ([], Inr (0, opts))"
    unfolding argv_def opts_def by code_simp
  have l: "load_sequences env opts = ([], Inr (0, loaded))"
    unfolding env_def opts_def loaded_def by code_simp
  have sel: "index_a opts = 1" "index_b opts = 2" "nr_window_widths opts = 3"
    "window_basewidth opts = 2" "apply_tau opts = - 1"
    by (simp_all add: opts_def initial_options_def)
  have size: "expected_diagram_size 4 2 3 (- 1) = 9223372036854775807"
    by (simp add: expected_diagram_size_def size_sub_def to_size_t_def)
  have c: "netOnZeroDXC_xc_check_sequences loaded 1 2 3 2 (- 1) = ([], Inr (0, 2))"
    by (simp add: netOnZeroDXC_xc_check_sequences_def loaded_def size int_ok_def INT_MIN_def
        INT_MAX_def to_size_t_def c_rem_def c_div_def)
  have d: "diagram_phase env (opts\<lparr>window_basewidth := 2, index_a := 0, index_b := 1\<rparr>)
             loaded =
           ([ComputeCDiagram [replicate 4 1, replicate 4 2] 0 1 2 3 False (- 1),
             SaveFile [[], [], []] ''out'' (CHR 0x09)], Inl (Exited 0))"
    unfolding env_def opts_def loaded_def by code_simp
  have "main env argv =
     ([ComputeCDiagram [replicate 4 1, replicate 4 2] 0 1 2 3 False (- 1),
       SaveFile [[], [], []] ''out'' (CHR 0x09)], Inl (Exited 0))"
    unfolding main_def p by (simp add: bind_run_def l sel c d)
  then show ?thesis
    using size by (simp add: env_def argv_def)
qed

end
